theory Spec2Isabelle
  imports Complex_Main "HOL-Library.AList" "HOL-Library.Word"
begin

section \<open>Values shared by the gateway classes\<close>

text \<open>
  The embedding follows \<^verbatim>\<open>nextcord/gateway.py\<close>. Python floats (clock readings,
  delays, latencies) are modelled as \<^typ>\<open>real\<close>; rounding is not part of the model.
  Every Python exception that the modelled code can raise is a value of \<open>exn\<close>;
  a function that mutates an object returns the object as it stands when the function
  returns or raises.
\<close>

datatype exn =
    ValueError
  | RuntimeError
  | AttributeError
  | KeyError
  | TypeError
  | IndexError
  | InvalidStateError
  | ZlibError
  | UnicodeDecodeError
  | StructError
  | JSONDecodeError
  | WebSocketClosure
  | TimeoutError
  | ReconnectWebSocket "int option" bool
  | ConnectionClosed "int option" "int option"
  | CancelledError
  | CallbackError string

text \<open>
  \<open>ReconnectWebSocket shard_id resume\<close> and \<open>ConnectionClosed shard_id code\<close> carry what
  the Python exceptions are constructed with. \<open>CancelledError\<close> is what \<^verbatim>\<open>asyncio\<close> raises
  in a task that was cancelled, at the \<^verbatim>\<open>await\<close> where the task next yields to the event
  loop. \<open>CallbackError\<close> stands for any exception raised by caller-supplied code (a
  predicate, a result transform, a parser).
\<close>

section \<open>GatewayRatelimiter\<close>

record GatewayRatelimiter =
  max_rl :: int
  remaining :: int
  window :: real
  per :: real

definition GatewayRatelimiter_init :: "int \<Rightarrow> real \<Rightarrow> GatewayRatelimiter" where
  "GatewayRatelimiter_init count p =
     \<lparr>max_rl = count, remaining = count, window = 0, per = p\<rparr>"

text \<open>The argument \<open>current\<close> is the value read from \<^verbatim>\<open>time.time()\<close>.\<close>

definition is_ratelimited :: "real \<Rightarrow> GatewayRatelimiter \<Rightarrow> bool" where
  "is_ratelimited current rl =
     (if current > window rl + per rl then False else remaining rl = 0)"

definition get_delay :: "real \<Rightarrow> GatewayRatelimiter \<Rightarrow> real \<times> GatewayRatelimiter" where
  "get_delay current rl =
     (let rl1 = (if current > window rl + per rl then rl\<lparr>remaining := max_rl rl\<rparr> else rl);
          rl2 = (if remaining rl1 = max_rl rl1 then rl1\<lparr>window := current\<rparr> else rl1)
      in if remaining rl2 = 0 then (per rl2 - (current - window rl2), rl2)
         else
           (let rl3 = rl2\<lparr>remaining := remaining rl2 - 1\<rparr>;
                rl4 = (if remaining rl3 = 0 then rl3\<lparr>window := current\<rparr> else rl3)
            in (0, rl4)))"

text \<open>
  \<open>block\<close> returns the duration it passed to \<^verbatim>\<open>asyncio.sleep\<close> (\<open>None\<close> when
  \<^verbatim>\<open>delta\<close> is falsy and no sleep happens) and the limiter as it is when \<open>block\<close> returns.
  Nothing after the sleep touches the limiter.
\<close>

definition block :: "real \<Rightarrow> GatewayRatelimiter \<Rightarrow> real option \<times> GatewayRatelimiter" where
  "block current rl =
     (case get_delay current rl of
        (delta, rl') \<Rightarrow> (if delta \<noteq> 0 then Some delta else None, rl'))"


section \<open>JSON values, futures, listeners, sockets\<close>

type_synonym byte = "8 word"

datatype json =
    JNull
  | JBool bool
  | JInt int
  | JFloat real
  | JStr string
  | JList "json list"
  | JDict "(string \<times> json) list"

text \<open>
  A decoded payload is a JSON value. The classes read it key by key: a subscript
  \<^verbatim>\<open>message["op"]\<close> raises \<^verbatim>\<open>KeyError\<close> when the key is absent, \<^verbatim>\<open>message.get("t")\<close>
  gives \<^verbatim>\<open>None\<close> then.
\<close>

text \<open>
  The functions of \<^verbatim>\<open>utils\<close>, \<^verbatim>\<open>zlib\<close> and \<^verbatim>\<open>sys\<close> that the gateway calls are
  parameters, as are Python's \<^verbatim>\<open>float\<close> on a string and the integer value of
  \<^verbatim>\<open>SpeakingState.none\<close> (\<^verbatim>\<open>enums.py\<close>). \<open>decompress\<close> is the \<^verbatim>\<open>decompress\<close> method of one \<^verbatim>\<open>zlib.decompressobj()\<close>:
  it takes and returns the state \<open>'z\<close> of that object.
\<close>

record 'z env =
  to_json :: "json \<Rightarrow> string"
  from_json :: "string \<Rightarrow> exn + json"
  decompress :: "'z \<Rightarrow> byte list \<Rightarrow> (exn + byte list) \<times> 'z"
  decode_utf8 :: "byte list \<Rightarrow> exn + string"
  float_of_string :: "string \<Rightarrow> exn + real"
  sys_platform :: string
  SpeakingState_none :: int

text \<open>
  The two clocks the code reads. \<^verbatim>\<open>asyncio.sleep(d)\<close> moves both forward by \<open>d\<close>
  (by nothing when \<open>d\<close> is not positive); what other tasks do during an \<^verbatim>\<open>await\<close>
  is outside the model.
\<close>

record clocks =
  time_time :: real
  perf_counter :: real

definition sleep :: "real \<Rightarrow> clocks \<Rightarrow> clocks" where
  "sleep delay c =
     c\<lparr>time_time := time_time c + max delay 0, perf_counter := perf_counter c + max delay 0\<rparr>"

text \<open>
  Futures of the event loop, addressed by their position in the loop's list.
  \<^verbatim>\<open>set_result\<close> and \<^verbatim>\<open>set_exception\<close> raise \<^verbatim>\<open>InvalidStateError\<close> on a future that
  is no longer pending; \<^verbatim>\<open>cancel\<close> changes only a pending future.
\<close>

datatype future_state = Pending | Cancelled | Result json | Exception exn

definition create_future :: "future_state list \<Rightarrow> nat \<times> future_state list" where
  "create_future futs = (length futs, futs @ [Pending])"

definition set_result :: "nat \<Rightarrow> json \<Rightarrow> future_state list \<Rightarrow> exn + future_state list" where
  "set_result f v futs =
     (if f < length futs \<and> futs ! f = Pending then Inr (futs[f := Result v])
      else Inl InvalidStateError)"

definition set_exception :: "nat \<Rightarrow> exn \<Rightarrow> future_state list \<Rightarrow> exn + future_state list" where
  "set_exception f e futs =
     (if f < length futs \<and> futs ! f = Pending then Inr (futs[f := Exception e])
      else Inl InvalidStateError)"

definition cancelled :: "nat \<Rightarrow> future_state list \<Rightarrow> bool" where
  "cancelled f futs = (f < length futs \<and> futs ! f = Cancelled)"

definition cancel :: "nat \<Rightarrow> future_state list \<Rightarrow> future_state list" where
  "cancel f futs = (if f < length futs \<and> futs ! f = Pending then futs[f := Cancelled] else futs)"

record EventListener =
  predicate :: "json \<Rightarrow> exn + bool"
  event :: string
  result :: "(json \<Rightarrow> exn + json) option"
  future :: nat

text \<open>
  The aiohttp socket at its boundary: \<open>send_fails\<close> is the exception a write raises
  (\<open>None\<close>: the write succeeds), \<open>socket_close_code\<close> is aiohttp's \<^verbatim>\<open>close_code\<close>,
  \<open>sent\<close> the strings written and \<open>closed_with\<close> the codes passed to \<^verbatim>\<open>close\<close>.
  \<open>close_suspends\<close> tells whether a task that awaits \<^verbatim>\<open>close\<close> yields to the event loop
  there, as it does while aiohttp waits for the closing frame of the peer.
\<close>

record ClientWebSocketResponse =
  closed :: bool
  socket_close_code :: "int option"
  send_fails :: "exn option"
  sent :: "string list"
  closed_with :: "int list"
  close_suspends :: bool

definition send_str :: "string \<Rightarrow> ClientWebSocketResponse \<Rightarrow> exn option \<times> ClientWebSocketResponse" where
  "send_str data sock =
     (case send_fails sock of
        Some e \<Rightarrow> (Some e, sock)
      | None \<Rightarrow> (None, sock\<lparr>sent := sent sock @ [data]\<rparr>))"

definition socket_close :: "int \<Rightarrow> ClientWebSocketResponse \<Rightarrow> ClientWebSocketResponse" where
  "socket_close code sock = sock\<lparr>closed := True, closed_with := closed_with sock @ [code]\<rparr>"

text \<open>Sequencing of two steps that may raise: the second runs only if the first returned.\<close>

definition and_then :: "exn option \<times> 'a \<Rightarrow> ('a \<Rightarrow> exn option \<times> 'a) \<Rightarrow> exn option \<times> 'a" where
  "and_then r f = (case r of (None, x) \<Rightarrow> f x | (Some e, x) \<Rightarrow> (Some e, x))"

definition json_of_int_option :: "int option \<Rightarrow> json" where
  "json_of_int_option x = (case x of None \<Rightarrow> JNull | Some n \<Rightarrow> JInt n)"

text \<open>
  Python's \<^verbatim>\<open>==\<close> between a JSON value and an integer constant (a float and a
  \<^verbatim>\<open>bool\<close> equal the integer of their value), its \<^verbatim>\<open>is\<close> between the two (the
  opcodes are small integers, of which CPython keeps one object each) and its
  \<^verbatim>\<open>bool\<close> of a JSON value.
\<close>

definition py_eq_int :: "json \<Rightarrow> int \<Rightarrow> bool" where
  "py_eq_int v k =
     (case v of
        JInt n \<Rightarrow> n = k
      | JFloat x \<Rightarrow> x = real_of_int k
      | JBool b \<Rightarrow> of_bool b = k
      | _ \<Rightarrow> False)"

definition py_is_int :: "json \<Rightarrow> int \<Rightarrow> bool" where
  "py_is_int v k = (v = JInt k)"

definition truthy :: "json \<Rightarrow> bool" where
  "truthy v =
     (case v of
        JNull \<Rightarrow> False
      | JBool b \<Rightarrow> b
      | JInt n \<Rightarrow> n \<noteq> 0
      | JFloat x \<Rightarrow> x \<noteq> 0
      | JStr str \<Rightarrow> str \<noteq> []
      | JList xs \<Rightarrow> xs \<noteq> []
      | JDict kvs \<Rightarrow> kvs \<noteq> [])"

text \<open>
  \<^verbatim>\<open>try: func = parsers[event]\<close>, \<^verbatim>\<open>except KeyError\<close>, \<^verbatim>\<open>else: func(data)\<close>. The keys of
  the parsers are strings. The lookup of a list or a dict raises \<^verbatim>\<open>TypeError\<close> (they
  are not hashable), which the \<^verbatim>\<open>except\<close> clause does not catch.
\<close>

definition call_parser ::
  "(string \<Rightarrow> (json \<Rightarrow> exn option) option) \<Rightarrow> json \<Rightarrow> json \<Rightarrow> exn option" where
  "call_parser parsers ev data =
     (case ev of
        JStr name \<Rightarrow> (case parsers name of None \<Rightarrow> None | Some func \<Rightarrow> func data)
      | JList xs \<Rightarrow> Some TypeError
      | JDict kvs \<Rightarrow> Some TypeError
      | _ \<Rightarrow> None)"

text \<open>
  The scan over the listeners, the same loop in both gateway classes. \<open>ev\<close> is the
  dispatched event as the payload has it, \<^verbatim>\<open>entry.event\<close> a string.
\<close>

fun scan_listeners ::
  "json \<Rightarrow> json \<Rightarrow> nat \<Rightarrow> EventListener list \<Rightarrow> nat list \<Rightarrow> future_state list
     \<Rightarrow> exn option \<times> nat list \<times> future_state list" where
  "scan_listeners ev data index [] removed futs = (None, removed, futs)"
| "scan_listeners ev data index (entry # rest) removed futs =
     (if JStr (event entry) \<noteq> ev then scan_listeners ev data (index + 1) rest removed futs
      else if cancelled (future entry) futs
        then scan_listeners ev data (index + 1) rest (removed @ [index]) futs
      else
        (case predicate entry data of
           Inl exc \<Rightarrow>
             (case set_exception (future entry) exc futs of
                Inl e \<Rightarrow> (Some e, removed, futs)
              | Inr futs' \<Rightarrow> scan_listeners ev data (index + 1) rest (removed @ [index]) futs')
         | Inr valid \<Rightarrow>
             if valid then
               (case (case result entry of None \<Rightarrow> Inr data | Some f \<Rightarrow> f data) of
                  Inl e \<Rightarrow> (Some e, removed, futs)
                | Inr ret \<Rightarrow>
                    (case set_result (future entry) ret futs of
                       Inl e \<Rightarrow> (Some e, removed, futs)
                     | Inr futs' \<Rightarrow>
                         scan_listeners ev data (index + 1) rest (removed @ [index]) futs'))
             else scan_listeners ev data (index + 1) rest removed futs))"

text \<open>
  \<^verbatim>\<open>for index in reversed(removed): del listeners[index]\<close>; the argument is the
  reversed list. \<^verbatim>\<open>del\<close> raises \<^verbatim>\<open>IndexError\<close> out of range.
\<close>

fun delete_listeners :: "nat list \<Rightarrow> 'a list \<Rightarrow> exn option \<times> 'a list" where
  "delete_listeners [] ls = (None, ls)"
| "delete_listeners (index # rest) ls =
     (if index < length ls then delete_listeners rest (take index ls @ drop (Suc index) ls)
      else (Some IndexError, ls))"

definition remove_dispatched ::
  "json \<Rightarrow> json \<Rightarrow> EventListener list \<Rightarrow> future_state list
     \<Rightarrow> exn option \<times> EventListener list \<times> future_state list" where
  "remove_dispatched ev data listeners futs =
     (case scan_listeners ev data 0 listeners [] futs of
        (Some e, removed, futs') \<Rightarrow> (Some e, listeners, futs')
      | (None, removed, futs') \<Rightarrow>
          (case delete_listeners (rev removed) listeners of
             (r, listeners') \<Rightarrow> (r, listeners', futs')))"


section \<open>DiscordWebSocket\<close>

text \<open>
  The attributes of \<^verbatim>\<open>DiscordWebSocket\<close> that the modelled methods read or write.
  \<open>loop_futures\<close> holds the futures made by \<^verbatim>\<open>self.loop.create_future()\<close>, \<open>clock\<close>
  the clocks, \<open>dispatch_log\<close> the calls of the sink \<^verbatim>\<open>self._dispatch\<close> (name and
  argument). \<open>heartbeat_task\<close> tells whether \<^verbatim>\<open>_heartbeat_task\<close> holds a task; the
  loop that the task runs is concurrent and not part of the model. A parser of
  \<open>discord_parsers\<close> returns the exception it raises, if any. \<open>enable_debug_events\<close>
  selects \<^verbatim>\<open>debug_send\<close> and \<^verbatim>\<open>debug_log_receive\<close>, as \<^verbatim>\<open>from_client\<close> does.
\<close>

record 'z DiscordWebSocket =
  socket :: ClientWebSocketResponse
  loop_futures :: "future_state list"
  clock :: clocks
  dispatch_log :: "(string \<times> json) list"
  dispatch_listeners :: "EventListener list"
  heartbeat_task :: bool
  heartbeat_ack_received :: "nat option"
  heartbeat_interval :: real
  heartbeat_sent_time :: real
  latency :: real
  session_id :: json
  resume_url :: json
  sequence :: json
  zlib :: 'z
  buffer :: "byte list"
  close_code :: "int option"
  rate_limiter :: GatewayRatelimiter
  discord_parsers :: "string \<Rightarrow> (json \<Rightarrow> exn option) option"
  shard_id :: "int option"
  trace :: json
  enable_debug_events :: bool

datatype msg_data = Str string | Bytes "byte list"



definition wait_for ::
  "string \<Rightarrow> (json \<Rightarrow> exn + bool) \<Rightarrow> (json \<Rightarrow> exn + json) option \<Rightarrow> 'z DiscordWebSocket
     \<Rightarrow> nat \<times> 'z DiscordWebSocket" where
  "wait_for ev pr res ws =
     (case create_future (loop_futures ws) of
        (fut, futs) \<Rightarrow>
          (fut, ws\<lparr>loop_futures := futs,
                   dispatch_listeners := dispatch_listeners ws @
                     [\<lparr>predicate = pr, event = ev, result = res, future = fut\<rparr>]\<rparr>))"

text \<open>\<^verbatim>\<open>code = self._close_code or self.socket.close_code\<close>\<close>

definition effective_close_code :: "'z DiscordWebSocket \<Rightarrow> int option" where
  "effective_close_code ws =
     (case close_code ws of
        None \<Rightarrow> socket_close_code (socket ws)
      | Some c \<Rightarrow> if c = 0 then socket_close_code (socket ws) else Some c)"

definition can_handle_close :: "'z DiscordWebSocket \<Rightarrow> bool" where
  "can_handle_close ws =
     (case effective_close_code ws of
        None \<Rightarrow> True
      | Some code \<Rightarrow> code \<notin> set [1000, 4004, 4010, 4011, 4012, 4013, 4014])"

definition close :: "int \<Rightarrow> 'z DiscordWebSocket \<Rightarrow> 'z DiscordWebSocket" where
  "close code ws =
     ws\<lparr>heartbeat_task := False, close_code := Some code,
        socket := socket_close code (socket ws)\<rparr>"

definition send :: "string \<Rightarrow> 'z DiscordWebSocket \<Rightarrow> exn option \<times> 'z DiscordWebSocket" where
  "send data ws =
     (case block (time_time (clock ws)) (rate_limiter ws) of
        (slept, rl) \<Rightarrow>
          (let ws1 = ws\<lparr>rate_limiter := rl,
                         clock := (case slept of None \<Rightarrow> clock ws
                                   | Some delta \<Rightarrow> sleep delta (clock ws))\<rparr>;
               ws2 = (if enable_debug_events ws1
                      then ws1\<lparr>dispatch_log := dispatch_log ws1 @ [(''socket_raw_send'', JStr data)]\<rparr>
                      else ws1)
           in case send_str data (socket ws2) of
                (r, sock) \<Rightarrow> (r, ws2\<lparr>socket := sock\<rparr>)))"

definition send_as_json ::
  "'z env \<Rightarrow> json \<Rightarrow> 'z DiscordWebSocket \<Rightarrow> exn option \<times> 'z DiscordWebSocket" where
  "send_as_json env data ws =
     (case send (to_json env data) ws of
        (None, ws') \<Rightarrow> (None, ws')
      | (Some e, ws') \<Rightarrow>
          if e = RuntimeError then
            (if \<not> can_handle_close ws' then (Some (ConnectionClosed (shard_id ws') None), ws')
             else (None, ws'))
          else (Some e, ws'))"

definition send_heartbeat ::
  "'z env \<Rightarrow> json \<Rightarrow> 'z DiscordWebSocket \<Rightarrow> exn option \<times> 'z DiscordWebSocket" where
  "send_heartbeat env data ws =
     (case send_str (to_json env data) (socket ws) of
        (None, sock) \<Rightarrow> (None, ws\<lparr>socket := sock\<rparr>)
      | (Some e, sock) \<Rightarrow>
          if e = RuntimeError then
            (if \<not> can_handle_close ws then (Some (ConnectionClosed (shard_id ws) None), ws)
             else (None, ws))
          else (Some e, ws))"

definition heartbeat :: "'z env \<Rightarrow> 'z DiscordWebSocket \<Rightarrow> exn option \<times> 'z DiscordWebSocket" where
  "heartbeat env ws =
     and_then
       (send_heartbeat env (JDict [(''op'', JInt 1), (''d'', sequence ws)]) ws)
       (\<lambda>ws'. (None, ws'\<lparr>heartbeat_sent_time := perf_counter (clock ws')\<rparr>))"

text \<open>
  Lines 760 to 767 of \<^verbatim>\<open>received_message\<close>, the handling of a \<^verbatim>\<open>bytes\<close> message:
  \<open>Inr None\<close> is the early \<^verbatim>\<open>return\<close>, \<open>Inr (Some msg)\<close> the decoded text with which
  the method goes on.
\<close>

definition received_bytes ::
  "'z env \<Rightarrow> byte list \<Rightarrow> 'z DiscordWebSocket \<Rightarrow> (exn + string option) \<times> 'z DiscordWebSocket" where
  "received_bytes env msg ws =
     (let ws1 = ws\<lparr>buffer := buffer ws @ msg\<rparr>
      in if length msg < 4 \<or> drop (length msg - 4) msg \<noteq> [0, 0, 255, 255] then (Inr None, ws1)
         else
           (case decompress env (zlib ws1) (buffer ws1) of
              (Inl e, z) \<Rightarrow> (Inl e, ws1\<lparr>zlib := z\<rparr>)
            | (Inr raw, z) \<Rightarrow>
                (case decode_utf8 env raw of
                   Inl e \<Rightarrow> (Inl e, ws1\<lparr>zlib := z\<rparr>)
                 | Inr text \<Rightarrow> (Inr (Some text), ws1\<lparr>zlib := z, buffer := []\<rparr>))))"

text \<open>\<^verbatim>\<open>", ".join(trace)\<close> raises \<^verbatim>\<open>TypeError\<close> unless it iterates over strings.\<close>

definition joinable :: "json \<Rightarrow> bool" where
  "joinable tr =
     (case tr of
        JList xs \<Rightarrow> list_all (\<lambda>x. case x of JStr _ \<Rightarrow> True | _ \<Rightarrow> False) xs
      | JStr _ \<Rightarrow> True
      | JDict _ \<Rightarrow> True
      | _ \<Rightarrow> False)"

text \<open>
  The \<^verbatim>\<open>READY\<close> and \<^verbatim>\<open>RESUMED\<close> branches: they return \<^verbatim>\<open>data\<close> as the rest of the
  method sees it, with the key \<^verbatim>\<open>__shard_id__\<close> set. \<open>data0\<close> is \<^verbatim>\<open>message["d"]\<close> and
  \<open>seq\<close> is \<^verbatim>\<open>message["s"]\<close>, both read before.
\<close>

definition on_ready ::
  "json \<Rightarrow> json \<Rightarrow> 'z DiscordWebSocket \<Rightarrow> (exn + json) \<times> 'z DiscordWebSocket" where
  "on_ready data0 seq ws =
     (case data0 of
        JDict kvs \<Rightarrow>
          (let tr = (case map_of kvs ''_trace'' of None \<Rightarrow> JList [] | Some v \<Rightarrow> v);
               ws1 = ws\<lparr>trace := tr, sequence := seq\<rparr>
           in case map_of kvs ''session_id'' of
                None \<Rightarrow> (Inl KeyError, ws1)
              | Some sid \<Rightarrow>
                  (let ws2 = ws1\<lparr>session_id := sid\<rparr>
                   in case map_of kvs ''resume_gateway_url'' of
                        None \<Rightarrow> (Inl KeyError, ws2)
                      | Some url \<Rightarrow>
                          (let ws3 = ws2\<lparr>resume_url := url\<rparr>;
                               data = JDict (AList.update ''__shard_id__''
                                        (json_of_int_option (shard_id ws3)) kvs)
                           in if joinable tr then (Inr data, ws3) else (Inl TypeError, ws3))))
      | _ \<Rightarrow> (Inl AttributeError, ws))"

definition on_resumed ::
  "json \<Rightarrow> 'z DiscordWebSocket \<Rightarrow> (exn + json) \<times> 'z DiscordWebSocket" where
  "on_resumed data0 ws =
     (case data0 of
        JDict kvs \<Rightarrow>
          (let tr = (case map_of kvs ''_trace'' of None \<Rightarrow> JList [] | Some v \<Rightarrow> v);
               ws1 = ws\<lparr>trace := tr\<rparr>;
               data = JDict (AList.update ''__shard_id__'' (json_of_int_option (shard_id ws1)) kvs)
           in if joinable tr then (Inr data, ws1) else (Inl TypeError, ws1))
      | _ \<Rightarrow> (Inl AttributeError, ws))"

text \<open>
  Lines 825 to 881: a \<^verbatim>\<open>DISPATCH\<close> payload, whose \<^verbatim>\<open>message.get("t")\<close> is \<open>ev\<close>.
\<close>

definition dispatch_event ::
  "json \<Rightarrow> json \<Rightarrow> json \<Rightarrow> 'z DiscordWebSocket \<Rightarrow> exn option \<times> 'z DiscordWebSocket" where
  "dispatch_event ev data0 seq ws =
     (case (if ev = JStr ''READY'' then on_ready data0 seq ws
            else if ev = JStr ''RESUMED'' then on_resumed data0 ws
            else (Inr data0, ws)) of
        (Inl e, ws1) \<Rightarrow> (Some e, ws1)
      | (Inr data, ws1) \<Rightarrow>
          (case call_parser (discord_parsers ws1) ev data of
             Some e \<Rightarrow> (Some e, ws1)
           | None \<Rightarrow>
               (case remove_dispatched ev data (dispatch_listeners ws1) (loop_futures ws1) of
                  (r, listeners, futs) \<Rightarrow>
                    (r, ws1\<lparr>dispatch_listeners := listeners, loop_futures := futs\<rparr>))))"

text \<open>\<^verbatim>\<open>data["heartbeat_interval"] / 1000.0\<close>, for the number that \<^verbatim>\<open>HelloEvent\<close> types.\<close>

definition hello_interval :: "json \<Rightarrow> exn + real" where
  "hello_interval data =
     (case data of
        JDict kvs \<Rightarrow>
          (case map_of kvs ''heartbeat_interval'' of
             None \<Rightarrow> Inl KeyError
           | Some (JInt n) \<Rightarrow> Inr (real_of_int n / 1000)
           | Some (JFloat x) \<Rightarrow> Inr (x / 1000)
           | Some (JBool b) \<Rightarrow> Inr (of_bool b / 1000)
           | Some _ \<Rightarrow> Inl TypeError)
      | _ \<Rightarrow> Inl TypeError)"

text \<open>
  Lines 783 to 823: a payload whose \<^verbatim>\<open>op\<close> is not \<^verbatim>\<open>DISPATCH\<close>. \<open>opv\<close> is
  \<^verbatim>\<open>message["op"]\<close> and \<open>data\<close> is \<^verbatim>\<open>message["d"]\<close>.
\<close>

definition handle_opcode ::
  "'z env \<Rightarrow> json \<Rightarrow> json \<Rightarrow> 'z DiscordWebSocket \<Rightarrow> exn option \<times> 'z DiscordWebSocket" where
  "handle_opcode env opv data ws =
     (if py_eq_int opv 7 then (Some (ReconnectWebSocket (shard_id ws) True), close 4000 ws)
      else if py_eq_int opv 11 \<and> heartbeat_ack_received ws \<noteq> None then
        (case heartbeat_ack_received ws of
           None \<Rightarrow> (None, ws)
         | Some fut \<Rightarrow>
             (case set_result fut JNull (loop_futures ws) of
                Inl e \<Rightarrow> (Some e, ws)
              | Inr futs \<Rightarrow>
                  (None, ws\<lparr>loop_futures := futs,
                            latency := perf_counter (clock ws) - heartbeat_sent_time ws\<rparr>)))
      else if py_eq_int opv 1 then heartbeat env ws
      else if py_eq_int opv 10 then
        (case hello_interval data of
           Inl e \<Rightarrow> (Some e, ws)
         | Inr interval \<Rightarrow>
             and_then (heartbeat env (ws\<lparr>heartbeat_interval := interval\<rparr>))
               (\<lambda>ws'. (None, ws'\<lparr>heartbeat_task := True\<rparr>)))
      else if py_eq_int opv 9 then
        (if data = JBool True
         then (Some (ReconnectWebSocket (shard_id ws) True), close 4000 ws)
         else (Some (ReconnectWebSocket (shard_id ws) False),
               close 1000 (ws\<lparr>sequence := JNull, session_id := JNull\<rparr>)))
      else (None, ws))"

text \<open>
  Lines 769 to 781, the keys of the decoded message in the order in which the method
  reads them: \<^verbatim>\<open>message.get("t")\<close> (an \<^verbatim>\<open>AttributeError\<close> unless the message is a
  dict), then \<^verbatim>\<open>message["op"]\<close>, \<^verbatim>\<open>message["d"]\<close> and \<^verbatim>\<open>message["s"]\<close>, each a
  \<^verbatim>\<open>KeyError\<close> when the key is absent, then the assignment of the sequence.
  \<open>read_message\<close> returns what the rest of the method works with: the event, the
  opcode, the data and the sequence number.
\<close>

definition read_message ::
  "json \<Rightarrow> 'z DiscordWebSocket
     \<Rightarrow> (exn + json \<times> json \<times> json \<times> json) \<times> 'z DiscordWebSocket" where
  "read_message message ws =
     (case message of
        JDict kvs \<Rightarrow>
          (let ev = (case map_of kvs ''t'' of None \<Rightarrow> JNull | Some v \<Rightarrow> v);
               ws1 = (if truthy ev
                      then ws\<lparr>dispatch_log := dispatch_log ws @ [(''socket_event_type'', ev)]\<rparr>
                      else ws)
           in case map_of kvs ''op'' of
                None \<Rightarrow> (Inl KeyError, ws1)
              | Some opv \<Rightarrow>
                  (case map_of kvs ''d'' of
                     None \<Rightarrow> (Inl KeyError, ws1)
                   | Some data \<Rightarrow>
                       (case map_of kvs ''s'' of
                          None \<Rightarrow> (Inl KeyError, ws1)
                        | Some seq \<Rightarrow>
                            (Inr (ev, opv, data, seq),
                             if seq \<noteq> JNull then ws1\<lparr>sequence := seq\<rparr> else ws1))))
      | _ \<Rightarrow> (Inl AttributeError, ws))"

text \<open>Lines 769 to 881: the method from \<^verbatim>\<open>self.log_receive(msg)\<close> on.\<close>

definition process_message ::
  "'z env \<Rightarrow> string \<Rightarrow> 'z DiscordWebSocket \<Rightarrow> exn option \<times> 'z DiscordWebSocket" where
  "process_message env msg ws =
     (let ws0 = (if enable_debug_events ws
                 then ws\<lparr>dispatch_log := dispatch_log ws @ [(''socket_raw_receive'', JStr msg)]\<rparr>
                 else ws)
      in case from_json env msg of
           Inl e \<Rightarrow> (Some e, ws0)
         | Inr message \<Rightarrow>
             (case read_message message ws0 of
                (Inl e, ws1) \<Rightarrow> (Some e, ws1)
              | (Inr (ev, opv, data, seq), ws2) \<Rightarrow>
                  if \<not> py_eq_int opv 0 then handle_opcode env opv data ws2
                  else dispatch_event ev data seq ws2))"

definition received_message ::
  "'z env \<Rightarrow> msg_data \<Rightarrow> 'z DiscordWebSocket \<Rightarrow> exn option \<times> 'z DiscordWebSocket" where
  "received_message env msg ws =
     (case msg of
        Str text \<Rightarrow> process_message env text ws
      | Bytes chunk \<Rightarrow>
          (case received_bytes env chunk ws of
             (Inl e, ws1) \<Rightarrow> (Some e, ws1)
           | (Inr None, ws1) \<Rightarrow> (None, ws1)
           | (Inr (Some text), ws1) \<Rightarrow> process_message env text ws1))"



section \<open>Shard\<close>

text \<open>
  The slots of \<^verbatim>\<open>Shard\<close>, each named \<open>sh_\<close> and the slot's name, with the futures
  of the running loop, the clocks and the calls of \<^verbatim>\<open>_dispatch\<close> as for
  \<^verbatim>\<open>DiscordWebSocket\<close>. \<^verbatim>\<open>None\<close> is \<open>JNull\<close> in the slots that hold JSON values.
\<close>

record 'z Shard =
  sh_socket :: "ClientWebSocketResponse option"
  sh_token :: string
  sh_dispatch_log :: "(string \<times> json) list"
  sh_dispatch_listeners :: "EventListener list"
  sh_discord_parsers :: "string \<Rightarrow> (json \<Rightarrow> exn option) option"
  sh_connection_task :: bool
  sh_heartbeat_task :: bool
  sh_heartbeat_ack_received :: "nat option"
  sh_heartbeat_interval :: real
  sh_heartbeat_sent_time :: real
  sh_latency :: real
  sh_intents :: int
  sh_session_id :: json
  sh_resume_url :: json
  sh_sequence :: json
  sh_shard_id :: int
  sh_shard_count :: int
  sh_debug :: bool
  sh_activity :: json
  sh_status :: json
  sh_zlib :: 'z
  sh_buffer :: "byte list"
  sh_rate_limiter :: GatewayRatelimiter
  sh_loop_futures :: "future_state list"
  sh_clock :: clocks

definition Shard_send :: "string \<Rightarrow> 'z Shard \<Rightarrow> exn option \<times> 'z Shard" where
  "Shard_send data sh =
     (case sh_socket sh of
        None \<Rightarrow> (Some AttributeError, sh)
      | Some sock \<Rightarrow>
          (case block (time_time (sh_clock sh)) (sh_rate_limiter sh) of
             (slept, rl) \<Rightarrow>
               (let sh1 = sh\<lparr>sh_rate_limiter := rl,
                              sh_clock := (case slept of None \<Rightarrow> sh_clock sh
                                           | Some delta \<Rightarrow> sleep delta (sh_clock sh))\<rparr>;
                    sh2 = (if sh_debug sh1
                           then sh1\<lparr>sh_dispatch_log :=
                                      sh_dispatch_log sh1 @ [(''socket_raw_send'', JStr data)]\<rparr>
                           else sh1)
                in case send_str data sock of
                     (r, sock') \<Rightarrow> (r, sh2\<lparr>sh_socket := Some sock'\<rparr>))))"

definition Shard_process_raw_data ::
  "'z env \<Rightarrow> msg_data \<Rightarrow> 'z Shard \<Rightarrow> (exn + string) \<times> 'z Shard" where
  "Shard_process_raw_data env msg sh =
     (case msg of
        Str text \<Rightarrow> (Inr text, sh)
      | Bytes data \<Rightarrow>
          (let sh1 = sh\<lparr>sh_buffer := sh_buffer sh @ data\<rparr>
           in if length data < 4 \<or> drop (length data - 4) data \<noteq> [0, 0, 255, 255]
              then (Inl ValueError, sh1)
              else
                (case decompress env (sh_zlib sh1) (sh_buffer sh1) of
                   (Inl e, z) \<Rightarrow> (Inl e, sh1\<lparr>sh_zlib := z\<rparr>)
                 | (Inr raw, z) \<Rightarrow>
                     (case decode_utf8 env raw of
                        Inl e \<Rightarrow> (Inl e, sh1\<lparr>sh_zlib := z\<rparr>)
                      | Inr text \<Rightarrow> (Inr text, sh1\<lparr>sh_zlib := z, sh_buffer := []\<rparr>)))))"

text \<open>
  \<^verbatim>\<open>disconnect\<close>; that the two tasks are cancelled is recorded by the two flags. The
  socket is the one \<^verbatim>\<open>ws_connect\<close> opened; called without a code, its \<^verbatim>\<open>close\<close> takes
  the default of \<^verbatim>\<open>DiscordClientWebSocketResponse.close\<close>, 4000.

  \<open>own_task\<close> tells whether the caller runs in the task that \<^verbatim>\<open>_connection_task\<close> holds,
  as \<^verbatim>\<open>_connection_loop\<close> does with all that it awaits. Then
  \<^verbatim>\<open>self._connection_task.cancel()\<close> cancels the running task itself, and the first
  \<^verbatim>\<open>await\<close> at which the task yields to the event loop raises \<^verbatim>\<open>CancelledError\<close>: this
  is the \<^verbatim>\<open>await\<close> of the socket's \<^verbatim>\<open>close\<close>, when \<open>close_suspends\<close> holds. The
  statements after it do not run: session, sequence and \<^verbatim>\<open>_socket\<close> stay as they are.
\<close>

definition Shard_disconnect :: "bool \<Rightarrow> bool \<Rightarrow> 'z Shard \<Rightarrow> exn option \<times> 'z Shard" where
  "Shard_disconnect own_task keep_session sh =
     (case sh_socket sh of
        None \<Rightarrow> (None, sh)
      | Some sock \<Rightarrow>
          (let self_cancelled = (own_task \<and> sh_connection_task sh);
               sh1 = sh\<lparr>sh_connection_task := False, sh_heartbeat_task := False\<rparr>;
               sh2 = (case sh_heartbeat_ack_received sh1 of
                        None \<Rightarrow> sh1
                      | Some fut \<Rightarrow>
                          sh1\<lparr>sh_loop_futures := cancel fut (sh_loop_futures sh1),
                              sh_heartbeat_ack_received := None\<rparr>);
               sh3 = sh2\<lparr>sh_socket := Some (socket_close (if keep_session then 999 else 4000) sock)\<rparr>
           in if self_cancelled \<and> close_suspends sock then (Some CancelledError, sh3)
              else
                (None,
                 (if keep_session then sh3
                  else sh3\<lparr>sh_resume_url := JNull, sh_session_id := JNull,
                           sh_sequence := JNull\<rparr>)\<lparr>sh_socket := None\<rparr>)))"

definition Shard_heartbeat :: "'z env \<Rightarrow> 'z Shard \<Rightarrow> exn option \<times> 'z Shard" where
  "Shard_heartbeat env sh =
     and_then
       (Shard_send
          (to_json env (JDict [(''op'', JInt 1), (''d'', sh_sequence sh)])) sh)
       (\<lambda>sh'. (None, sh'\<lparr>sh_heartbeat_sent_time := perf_counter (sh_clock sh')\<rparr>))"

definition Shard_identify :: "'z env \<Rightarrow> 'z Shard \<Rightarrow> exn option \<times> 'z Shard" where
  "Shard_identify env sh =
     (let fields =
            [(''token'', JStr (sh_token sh)),
             (''properties'', JDict [(''os'', JStr (sys_platform env)),
                                    (''browser'', JStr ''nextcord''),
                                    (''device'', JStr ''nextcord'')]),
             (''compress'', JBool True),
             (''large_threshold'', JInt 250),
             (''intents'', JInt (sh_intents sh)),
             (''shard'', JList [JInt (sh_shard_id sh), JInt (sh_shard_count sh)])];
          fields' =
            (if sh_activity sh \<noteq> JNull \<or> sh_status sh \<noteq> JNull
             then fields @
                    [(''presence'', JDict [(''status'', sh_status sh), (''game'', sh_activity sh),
                                          (''since'', JInt 0), (''afk'', JBool False)])]
             else fields)
      in Shard_send (to_json env (JDict [(''op'', JInt 2), (''d'', JDict fields')])) sh)"

definition Shard_resume :: "'z env \<Rightarrow> 'z Shard \<Rightarrow> exn option \<times> 'z Shard" where
  "Shard_resume env sh =
     Shard_send
       (to_json env
          (JDict [(''op'', JInt 6),
                  (''d'', JDict [(''seq'', sh_sequence sh),
                                (''session_id'', sh_session_id sh),
                                (''token'', JStr (sh_token sh))])])) sh"

definition Shard_dispatch_events ::
  "json \<Rightarrow> json \<Rightarrow> 'z Shard \<Rightarrow> exn option \<times> 'z Shard" where
  "Shard_dispatch_events data0 ev sh =
     (case (if ev = JStr ''READY'' then
              (case data0 of
                 JDict kvs \<Rightarrow>
                   (case map_of kvs ''session_id'' of
                      None \<Rightarrow> (Inl KeyError, sh)
                    | Some sid \<Rightarrow>
                        (let sh1 = sh\<lparr>sh_session_id := sid\<rparr>
                         in case map_of kvs ''resume_gateway_url'' of
                              None \<Rightarrow> (Inl KeyError, sh1)
                            | Some url \<Rightarrow>
                                (Inr (JDict (AList.update ''__shard_id__''
                                               (JInt (sh_shard_id sh1)) kvs)),
                                 sh1\<lparr>sh_resume_url := url\<rparr>)))
               | _ \<Rightarrow> (Inl TypeError, sh))
            else if ev = JStr ''RESUMED'' then
              (case data0 of
                 JDict kvs \<Rightarrow>
                   (Inr (JDict (AList.update ''__shard_id__'' (JInt (sh_shard_id sh)) kvs)), sh)
               | _ \<Rightarrow> (Inl TypeError, sh))
            else (Inr data0, sh)) of
        (Inl e, sh1) \<Rightarrow> (Some e, sh1)
      | (Inr data, sh1) \<Rightarrow>
          (case call_parser (sh_discord_parsers sh1) ev data of
             Some e \<Rightarrow> (Some e, sh1)
           | None \<Rightarrow>
               (case remove_dispatched ev data (sh_dispatch_listeners sh1)
                       (sh_loop_futures sh1) of
                  (r, listeners, futs) \<Rightarrow>
                    (r, sh1\<lparr>sh_dispatch_listeners := listeners, sh_loop_futures := futs\<rparr>))))"

text \<open>\<^verbatim>\<open>float(payload["d"]["heartbeat_interval"]) / 1000\<close>\<close>

definition Shard_hello_interval :: "'z env \<Rightarrow> json \<Rightarrow> exn + real" where
  "Shard_hello_interval env data =
     (case data of
        JDict kvs \<Rightarrow>
          (case map_of kvs ''heartbeat_interval'' of
             None \<Rightarrow> Inl KeyError
           | Some (JInt n) \<Rightarrow> Inr (real_of_int n / 1000)
           | Some (JFloat x) \<Rightarrow> Inr (x / 1000)
           | Some (JBool b) \<Rightarrow> Inr (of_bool b / 1000)
           | Some (JStr str) \<Rightarrow>
               (case float_of_string env str of Inl e \<Rightarrow> Inl e | Inr x \<Rightarrow> Inr (x / 1000))
           | Some _ \<Rightarrow> Inl TypeError)
      | _ \<Rightarrow> Inl TypeError)"

text \<open>
  \<^verbatim>\<open>_process_payload\<close>: \<^verbatim>\<open>payload.get("s")\<close> (an \<^verbatim>\<open>AttributeError\<close> unless the payload
  is a dict) and the assignment of the sequence, then the six \<^verbatim>\<open>if\<close> statements in the
  order of the source, each run only if the ones before returned. \<^verbatim>\<open>payload["op"]\<close>,
  \<^verbatim>\<open>payload["t"]\<close> and \<^verbatim>\<open>payload["d"]\<close> raise \<^verbatim>\<open>KeyError\<close> when the key is absent. The
  opcode is compared with \<^verbatim>\<open>is\<close>. \<open>own_task\<close> is passed on to \<open>Shard_disconnect\<close>.
\<close>

definition Shard_process_payload ::
  "'z env \<Rightarrow> bool \<Rightarrow> json \<Rightarrow> 'z Shard \<Rightarrow> exn option \<times> 'z Shard" where
  "Shard_process_payload env own_task payload sh =
     (case payload of
        JDict kvs \<Rightarrow>
          (let seq = (case map_of kvs ''s'' of None \<Rightarrow> JNull | Some v \<Rightarrow> v);
               sh0 = (if seq \<noteq> JNull then sh\<lparr>sh_sequence := seq\<rparr> else sh)
           in case map_of kvs ''op'' of
                None \<Rightarrow> (Some KeyError, sh0)
              | Some opv \<Rightarrow>
                  and_then
                    (if py_is_int opv 0 then
                       (case map_of kvs ''t'' of
                          None \<Rightarrow> (Some KeyError, sh0)
                        | Some ev \<Rightarrow>
                            (case map_of kvs ''d'' of
                               None \<Rightarrow> (Some KeyError, sh0)
                             | Some data \<Rightarrow> Shard_dispatch_events data ev sh0))
                     else (None, sh0))
                  (\<lambda>sh1. and_then
                    (if py_is_int opv 7 then Shard_disconnect own_task False sh1 else (None, sh1))
                  (\<lambda>sh2. and_then
                    (if py_is_int opv 11 \<and> sh_heartbeat_ack_received sh2 \<noteq> None then
                       (case sh_heartbeat_ack_received sh2 of
                          None \<Rightarrow> (None, sh2)
                        | Some fut \<Rightarrow>
                            (case set_result fut JNull (sh_loop_futures sh2) of
                               Inl e \<Rightarrow> (Some e, sh2)
                             | Inr futs \<Rightarrow>
                                 (None, sh2\<lparr>sh_loop_futures := futs,
                                            sh_latency := perf_counter (sh_clock sh2)
                                                          - sh_heartbeat_sent_time sh2\<rparr>)))
                     else (None, sh2))
                  (\<lambda>sh3. and_then
                    (if py_is_int opv 1 then Shard_heartbeat env sh3 else (None, sh3))
                  (\<lambda>sh4. and_then
                    (if py_is_int opv 10 then
                       (case map_of kvs ''d'' of
                          None \<Rightarrow> (Some KeyError, sh4)
                        | Some data \<Rightarrow>
                            (case Shard_hello_interval env data of
                               Inl e \<Rightarrow> (Some e, sh4)
                             | Inr interval \<Rightarrow>
                                 and_then
                                   (Shard_heartbeat env (sh4\<lparr>sh_heartbeat_interval := interval\<rparr>))
                                   (\<lambda>sh'. (let sh'' = sh'\<lparr>sh_heartbeat_task := True\<rparr>
                                           in if sh_session_id sh'' \<noteq> JNull
                                              then Shard_resume env sh''
                                              else Shard_identify env sh''))))
                     else (None, sh4))
                  (\<lambda>sh5.
                    (if py_is_int opv 9 then
                       (case map_of kvs ''d'' of
                          None \<Rightarrow> (Some KeyError, sh5)
                        | Some data \<Rightarrow> Shard_disconnect own_task (truthy data) sh5)
                     else (None, sh5))))))))
      | _ \<Rightarrow> (Some AttributeError, sh))"

section \<open>DiscordVoiceWebSocket\<close>

text \<open>
  The part of the voice client (\<^verbatim>\<open>self._connection\<close>) that the websocket touches.
  \<open>udp_sent\<close> lists the calls of \<^verbatim>\<open>state.socket.sendto\<close>: the packet and the address.
\<close>

record VoiceClient =
  ssrc :: json
  voice_port :: json
  endpoint_ip :: json
  ip :: string
  port :: int
  mode :: json
  client_secret_key :: json
  supported_modes :: "string list"
  udp_sent :: "(byte list \<times> json \<times> json) list"

record DiscordVoiceWebSocket =
  v_ws :: ClientWebSocketResponse
  v_loop_futures :: "future_state list"
  v_clock :: clocks
  v_heartbeat_task :: bool
  v_heartbeat_ack_received :: "nat option"
  v_heartbeat_interval :: real
  v_heartbeat_sent_time :: real
  latencies :: "real list"
  v_close_code :: "int option"
  secret_key :: json
  hook_calls :: "json list"
  connection :: VoiceClient

definition Voice_send_as_json ::
  "'z env \<Rightarrow> json \<Rightarrow> DiscordVoiceWebSocket \<Rightarrow> exn option \<times> DiscordVoiceWebSocket" where
  "Voice_send_as_json env data vws =
     (case send_str (to_json env data) (v_ws vws) of
        (r, sock) \<Rightarrow> (r, vws\<lparr>v_ws := sock\<rparr>))"

definition select_protocol ::
  "'z env \<Rightarrow> string \<Rightarrow> int \<Rightarrow> json \<Rightarrow> DiscordVoiceWebSocket
     \<Rightarrow> exn option \<times> DiscordVoiceWebSocket" where
  "select_protocol env address prt md vws =
     Voice_send_as_json env
       (JDict [(''op'', JInt 1),
               (''d'', JDict [(''protocol'', JStr ''udp''),
                             (''data'', JDict [(''address'', JStr address),
                                              (''port'', JInt prt),
                                              (''mode'', md)])])]) vws"

definition speak ::
  "'z env \<Rightarrow> int \<Rightarrow> DiscordVoiceWebSocket \<Rightarrow> exn option \<times> DiscordVoiceWebSocket" where
  "speak env state vws =
     Voice_send_as_json env
       (JDict [(''op'', JInt 5),
               (''d'', JDict [(''speaking'', JInt state), (''delay'', JInt 0),
                             (''ssrc'', ssrc (connection vws))])]) vws"

text \<open>\<^verbatim>\<open>struct.pack(">H", n)\<close> and \<^verbatim>\<open>struct.pack(">I", n)\<close> on an integer.\<close>

definition pack_H :: "int \<Rightarrow> exn + byte list" where
  "pack_H n =
     (if 0 \<le> n \<and> n < 2 ^ 16 then Inr [word_of_int (n div 2 ^ 8), word_of_int n]
      else Inl StructError)"

definition pack_I :: "int \<Rightarrow> exn + byte list" where
  "pack_I n =
     (if 0 \<le> n \<and> n < 2 ^ 32
      then Inr [word_of_int (n div 2 ^ 24), word_of_int (n div 2 ^ 16),
                word_of_int (n div 2 ^ 8), word_of_int n]
      else Inl StructError)"

text \<open>\<^verbatim>\<open>struct.pack_into(fmt, buffer, offset, n)\<close>, given the packed bytes.\<close>

definition pack_into :: "exn + byte list \<Rightarrow> nat \<Rightarrow> byte list \<Rightarrow> exn + byte list" where
  "pack_into packed offset buf =
     (case packed of
        Inl e \<Rightarrow> Inl e
      | Inr bs \<Rightarrow>
          if offset + length bs \<le> length buf
          then Inr (take offset buf @ bs @ drop (offset + length bs) buf)
          else Inl StructError)"

text \<open>The integer that \<^verbatim>\<open>struct\<close> takes from a JSON value; a \<^verbatim>\<open>bool\<close> is an integer.\<close>

definition struct_int :: "json \<Rightarrow> exn + int" where
  "struct_int v =
     (case v of JInt n \<Rightarrow> Inr n | JBool b \<Rightarrow> Inr (of_bool b) | _ \<Rightarrow> Inl StructError)"

text \<open>Lines 1246 to 1251: the discovery packet for \<^verbatim>\<open>state.ssrc\<close>.\<close>

definition discovery_packet :: "json \<Rightarrow> exn + byte list" where
  "discovery_packet ssrc_value =
     (case pack_into (pack_H 1) 0 (replicate 74 0) of
        Inl e \<Rightarrow> Inl e
      | Inr p1 \<Rightarrow>
          (case pack_into (pack_H 70) 2 p1 of
             Inl e \<Rightarrow> Inl e
           | Inr p2 \<Rightarrow>
               (case struct_int ssrc_value of
                  Inl e \<Rightarrow> Inl e
                | Inr n \<Rightarrow> pack_into (pack_I n) 4 p2)))"

text \<open>\<^verbatim>\<open>bytes.index(x, start)\<close>, \<^verbatim>\<open>bytes.decode("ascii")\<close>, \<^verbatim>\<open>struct.unpack_from(">H", ...)\<close>\<close>

definition bytes_index :: "byte \<Rightarrow> nat \<Rightarrow> byte list \<Rightarrow> exn + nat" where
  "bytes_index x start bs =
     (if x \<in> set (drop start bs)
      then Inr (start + length (takeWhile (\<lambda>b. b \<noteq> x) (drop start bs)))
      else Inl ValueError)"

definition decode_ascii :: "byte list \<Rightarrow> exn + string" where
  "decode_ascii bs =
     (if list_all (\<lambda>b. b < 128) bs then Inr (map (\<lambda>b. char_of (unat b)) bs)
      else Inl UnicodeDecodeError)"

definition unpack_from_H :: "byte list \<Rightarrow> int \<Rightarrow> exn + int" where
  "unpack_from_H buf offset =
     (let n = int (length buf); off = (if offset < 0 then offset + n else offset)
      in if 0 \<le> off \<and> off + 2 \<le> n
         then Inr (uint (buf ! nat off) * 256 + uint (buf ! (nat off + 1)))
         else Inl StructError)"

text \<open>
  Lines 1256 to 1261: the address and the port read from the reply \<^verbatim>\<open>recv\<close> and stored
  in the voice client.
\<close>

definition read_discovery :: "byte list \<Rightarrow> VoiceClient \<Rightarrow> exn option \<times> VoiceClient" where
  "read_discovery recv state =
     (case bytes_index 0 8 recv of
        Inl e \<Rightarrow> (Some e, state)
      | Inr ip_end \<Rightarrow>
          (case decode_ascii (take (ip_end - 8) (drop 8 recv)) of
             Inl e \<Rightarrow> (Some e, state)
           | Inr address \<Rightarrow>
               (let state1 = state\<lparr>ip := address\<rparr>
                in case unpack_from_H recv (int (length recv) - 2) of
                     Inl e \<Rightarrow> (Some e, state1)
                   | Inr prt \<Rightarrow> (None, state1\<lparr>port := prt\<rparr>))))"

text \<open>What a \<^verbatim>\<open>for\<close> over a JSON value iterates.\<close>

definition iterate :: "json \<Rightarrow> exn + json list" where
  "iterate v =
     (case v of
        JList xs \<Rightarrow> Inr xs
      | JStr str \<Rightarrow> Inr (map (\<lambda>c. JStr [c]) str)
      | JDict kvs \<Rightarrow> Inr (map (\<lambda>kv. JStr (fst kv)) kvs)
      | _ \<Rightarrow> Inl TypeError)"

text \<open>Lines 1239 to 1252: the fields of \<^verbatim>\<open>data\<close> are stored and the packet is sent.\<close>

definition send_discovery :: "json \<Rightarrow> VoiceClient \<Rightarrow> exn option \<times> VoiceClient" where
  "send_discovery data state =
     (case data of
        JDict kvs \<Rightarrow>
          (case map_of kvs ''ssrc'' of
             None \<Rightarrow> (Some KeyError, state)
           | Some ssrc_value \<Rightarrow>
               (let state1 = state\<lparr>ssrc := ssrc_value\<rparr>
                in case map_of kvs ''port'' of
                     None \<Rightarrow> (Some KeyError, state1)
                   | Some port_value \<Rightarrow>
                       (let state2 = state1\<lparr>voice_port := port_value\<rparr>
                        in case map_of kvs ''ip'' of
                             None \<Rightarrow> (Some KeyError, state2)
                           | Some ip_value \<Rightarrow>
                               (let state3 = state2\<lparr>endpoint_ip := ip_value\<rparr>
                                in case discovery_packet (ssrc state3) of
                                     Inl e \<Rightarrow> (Some e, state3)
                                   | Inr packet \<Rightarrow>
                                       (None, state3\<lparr>udp_sent := udp_sent state3 @
                                          [(packet, endpoint_ip state3, voice_port state3)]\<rparr>)))))
      | _ \<Rightarrow> (Some TypeError, state))"

text \<open>Lines 1265 to 1268: the first offered mode that the client supports.\<close>

definition choose_mode :: "json \<Rightarrow> string list \<Rightarrow> exn + json" where
  "choose_mode data supported =
     (case data of
        JDict kvs \<Rightarrow>
          (case map_of kvs ''modes'' of
             None \<Rightarrow> Inl KeyError
           | Some modes_value \<Rightarrow>
               (case iterate modes_value of
                  Inl e \<Rightarrow> Inl e
                | Inr offered \<Rightarrow>
                    (case filter (\<lambda>m. m \<in> set (map JStr supported)) offered of
                       [] \<Rightarrow> Inl IndexError
                     | md # _ \<Rightarrow> Inr md)))
      | _ \<Rightarrow> Inl TypeError)"

text \<open>
  \<^verbatim>\<open>initial_connection\<close>; \<open>recv\<close> is what \<^verbatim>\<open>sock_recv(state.socket, 74)\<close> returns.
\<close>

definition initial_connection ::
  "'z env \<Rightarrow> byte list \<Rightarrow> json \<Rightarrow> DiscordVoiceWebSocket
     \<Rightarrow> exn option \<times> DiscordVoiceWebSocket" where
  "initial_connection env recv data vws =
     (case and_then (send_discovery data (connection vws)) (read_discovery recv) of
        (Some e, state) \<Rightarrow> (Some e, vws\<lparr>connection := state\<rparr>)
      | (None, state) \<Rightarrow>
          (let vws1 = vws\<lparr>connection := state\<rparr>
           in case choose_mode data (supported_modes state) of
                Inl e \<Rightarrow> (Some e, vws1)
              | Inr md \<Rightarrow> select_protocol env (ip state) (port state) md vws1))"

definition load_secret_key ::
  "'z env \<Rightarrow> json \<Rightarrow> DiscordVoiceWebSocket \<Rightarrow> exn option \<times> DiscordVoiceWebSocket" where
  "load_secret_key env data vws =
     (case data of
        JDict kvs \<Rightarrow>
          (case map_of kvs ''secret_key'' of
             None \<Rightarrow> (Some KeyError, vws)
           | Some key \<Rightarrow>
               speak env (SpeakingState_none env)
                 (vws\<lparr>secret_key := key,
                      connection := (connection vws)\<lparr>client_secret_key := key\<rparr>\<rparr>))
      | _ \<Rightarrow> (Some TypeError, vws))"

text \<open>
  \<^verbatim>\<open>received_message\<close> of the voice websocket. \<^verbatim>\<open>msg["op"]\<close> and \<^verbatim>\<open>msg["d"]\<close> raise
  \<^verbatim>\<open>KeyError\<close> when the key is absent, and \<^verbatim>\<open>TypeError\<close> when the message is not a
  dict. The hook is caller-supplied code: the model records that it was called, and with
  which message.
\<close>

definition Voice_received_message ::
  "'z env \<Rightarrow> byte list \<Rightarrow> json \<Rightarrow> DiscordVoiceWebSocket
     \<Rightarrow> exn option \<times> DiscordVoiceWebSocket" where
  "Voice_received_message env recv msg vws =
     (case msg of
        JDict kvs \<Rightarrow>
          (case map_of kvs ''op'' of
             None \<Rightarrow> (Some KeyError, vws)
           | Some opv \<Rightarrow>
               (case map_of kvs ''d'' of
                  None \<Rightarrow> (Some KeyError, vws)
                | Some data \<Rightarrow>
                    and_then
                      (if py_eq_int opv 2 then initial_connection env recv data vws
                       else if py_eq_int opv 6 \<and> v_heartbeat_ack_received vws \<noteq> None then
                         (case v_heartbeat_ack_received vws of
                            None \<Rightarrow> (None, vws)
                          | Some fut \<Rightarrow>
                              (case set_result fut JNull (v_loop_futures vws) of
                                 Inl e \<Rightarrow> (Some e, vws)
                               | Inr futs \<Rightarrow>
                                   (let vws1 = vws\<lparr>v_loop_futures := futs\<rparr>;
                                        vws2 = (if length (latencies vws1) > 20
                                                then vws1\<lparr>latencies := []\<rparr>
                                                else vws1)
                                    in (None, vws2\<lparr>latencies := latencies vws2 @
                                          [perf_counter (v_clock vws2)
                                           - v_heartbeat_sent_time vws2]\<rparr>))))
                       else if py_eq_int opv 9 then (None, vws)
                       else if py_eq_int opv 4 then
                         (case data of
                            JDict entries \<Rightarrow>
                              (case map_of entries ''mode'' of
                                 None \<Rightarrow> (Some KeyError, vws)
                               | Some md \<Rightarrow>
                                   load_secret_key env data
                                     (vws\<lparr>connection := (connection vws)\<lparr>mode := md\<rparr>\<rparr>))
                          | _ \<Rightarrow> (Some TypeError, vws))
                       else if py_eq_int opv 8 then
                         (case hello_interval data of
                            Inl e \<Rightarrow> (Some e, vws)
                          | Inr interval \<Rightarrow>
                              (None, vws\<lparr>v_heartbeat_interval := interval,
                                         v_heartbeat_task := True\<rparr>))
                       else (None, vws))
                      (\<lambda>vws'. (None, vws'\<lparr>hook_calls := hook_calls vws' @ [msg]\<rparr>))))
      | _ \<Rightarrow> (Some TypeError, vws))"

text \<open>The properties \<^verbatim>\<open>latency\<close> and \<^verbatim>\<open>average_latency\<close>; \<open>None\<close> is \<^verbatim>\<open>float("inf")\<close>.\<close>

definition Voice_latency :: "DiscordVoiceWebSocket \<Rightarrow> real option" where
  "Voice_latency vws = (if latencies vws \<noteq> [] then Some (last (latencies vws)) else None)"

definition average_latency :: "DiscordVoiceWebSocket \<Rightarrow> real option" where
  "average_latency vws =
     (if latencies vws = [] then None
      else Some (sum_list (latencies vws) / real (length (latencies vws))))"


section \<open>Construction\<close>

text \<open>
  \<^verbatim>\<open>__init__\<close> of the three classes, with the attributes that \<^verbatim>\<open>from_client\<close> adds
  to a \<^verbatim>\<open>DiscordWebSocket\<close> left at \<^verbatim>\<open>None\<close>, no parsers and no debug events. The
  arguments that are not Python arguments are the state of the decompressor and the
  clocks.
\<close>

definition new_socket :: ClientWebSocketResponse where
  "new_socket =
     \<lparr>closed = False, socket_close_code = None, send_fails = None, sent = [], closed_with = [],
      close_suspends = True\<rparr>"

definition DiscordWebSocket_init ::
  "ClientWebSocketResponse \<Rightarrow> 'z \<Rightarrow> clocks \<Rightarrow> 'z DiscordWebSocket" where
  "DiscordWebSocket_init sock z c =
     \<lparr>socket = sock, loop_futures = [], clock = c, dispatch_log = [],
      dispatch_listeners = [], heartbeat_task = False, heartbeat_ack_received = None,
      heartbeat_interval = 0, heartbeat_sent_time = 0, latency = 0,
      session_id = JNull, resume_url = JNull, sequence = JNull, zlib = z, buffer = [],
      close_code = None, rate_limiter = GatewayRatelimiter_init 110 60,
      discord_parsers = (\<lambda>name. None), shard_id = None, trace = JNull,
      enable_debug_events = False\<rparr>"

definition Shard_init :: "string \<Rightarrow> int \<Rightarrow> int \<Rightarrow> int \<Rightarrow> bool \<Rightarrow> 'z \<Rightarrow> clocks \<Rightarrow> 'z Shard" where
  "Shard_init tok ints sid scount dbg z c =
     \<lparr>sh_socket = None, sh_token = tok, sh_dispatch_log = [], sh_dispatch_listeners = [],
      sh_discord_parsers = (\<lambda>name. None), sh_connection_task = False,
      sh_heartbeat_task = False, sh_heartbeat_ack_received = None,
      sh_heartbeat_interval = 0, sh_heartbeat_sent_time = 0, sh_latency = 0,
      sh_intents = ints, sh_session_id = JNull, sh_resume_url = JNull,
      sh_sequence = JNull, sh_shard_id = sid, sh_shard_count = scount,
      sh_debug = dbg, sh_activity = JNull, sh_status = JNull, sh_zlib = z,
      sh_buffer = [], sh_rate_limiter = GatewayRatelimiter_init 110 60,
      sh_loop_futures = [], sh_clock = c\<rparr>"

text \<open>\<^verbatim>\<open>connect\<close> stores the socket that \<^verbatim>\<open>ws_connect\<close> returns and starts the loop.\<close>

definition Shard_connect :: "ClientWebSocketResponse \<Rightarrow> 'z Shard \<Rightarrow> 'z Shard" where
  "Shard_connect sock sh = sh\<lparr>sh_socket := Some sock, sh_connection_task := True\<rparr>"

definition DiscordVoiceWebSocket_init ::
  "ClientWebSocketResponse \<Rightarrow> VoiceClient \<Rightarrow> clocks \<Rightarrow> DiscordVoiceWebSocket" where
  "DiscordVoiceWebSocket_init sock client c =
     \<lparr>v_ws = sock, v_loop_futures = [], v_clock = c, v_heartbeat_task = False,
      v_heartbeat_ack_received = None, v_heartbeat_interval = 0, v_heartbeat_sent_time = 0,
      latencies = [], v_close_code = None, secret_key = JNull, hook_calls = [],
      connection = client\<rparr>"

section \<open>Concrete inputs\<close>

text \<open>
  An environment whose decompressor hands its input back and whose decoder reads bytes
  as characters, and connections as their constructors leave them.
\<close>

definition env0 :: "unit env" where
  "env0 =
     \<lparr>to_json = (\<lambda>v. ''{}''), from_json = (\<lambda>text. Inl JSONDecodeError),
      decompress = (\<lambda>z bs. (Inr bs, z)),
      decode_utf8 = (\<lambda>bs. Inr (map (\<lambda>b. char_of (unat b)) bs)),
      float_of_string = (\<lambda>text. Inl ValueError), sys_platform = ''linux'',
      SpeakingState_none = 0\<rparr>"

definition env_of :: "json \<Rightarrow> unit env" where
  "env_of message = env0\<lparr>from_json := (\<lambda>text. Inr message)\<rparr>"

definition clock0 :: clocks where
  "clock0 = \<lparr>time_time = 1000, perf_counter = 50\<rparr>"

definition ws0 :: "unit DiscordWebSocket" where
  "ws0 = DiscordWebSocket_init new_socket () clock0"

definition shard0 :: "unit Shard" where
  "shard0 = Shard_connect new_socket (Shard_init ''token'' 0 0 1 False () clock0)"

text \<open>
  A \<^verbatim>\<open>DiscordWebSocket\<close> whose socket is closed, reports the close code \<open>c\<close> and whose
  writes raise \<^verbatim>\<open>RuntimeError\<close>.
\<close>

definition ws_closed_with :: "int \<Rightarrow> unit DiscordWebSocket" where
  "ws_closed_with c =
     ws0\<lparr>socket := new_socket\<lparr>closed := True, socket_close_code := Some c,
                              send_fails := Some RuntimeError\<rparr>\<rparr>"

text \<open>
  A dispatch that carries the sequence number 6, and a \<^verbatim>\<open>HEARTBEAT_ACK\<close> as the gateway
  sends it, with all four keys. \<open>ack_typed\<close> is a \<^verbatim>\<open>HEARTBEAT_ACK\<close> of the shape that
  \<^verbatim>\<open>HeartbeatAckEvent\<close> of \<^verbatim>\<open>types/gateway.py\<close> types: the key \<^verbatim>\<open>op\<close> alone.
\<close>

definition dispatch6 :: json where
  "dispatch6 =
     JDict [(''t'', JStr ''MESSAGE_CREATE''), (''s'', JInt 6), (''op'', JInt 0), (''d'', JDict [])]"

definition ack11 :: json where
  "ack11 = JDict [(''t'', JNull), (''s'', JNull), (''op'', JInt 11), (''d'', JNull)]"

definition ack_typed :: json where
  "ack_typed = JDict [(''op'', JInt 11)]"

text \<open>The byte string ends with the four bytes \<^verbatim>\<open>00 00 FF FF\<close>.\<close>

definition ends_with_marker :: "byte list \<Rightarrow> bool" where
  "ends_with_marker bs = (4 \<le> length bs \<and> drop (length bs - 4) bs = [0, 0, 255, 255])"

text \<open>
  The voice heartbeat, and lines 1200 to 1202 of the voice heartbeat loop: a heartbeat is
  sent and a new future waits for its acknowledgement. \<open>py_int\<close> is Python's \<^verbatim>\<open>int\<close>
  on a float.
\<close>

definition py_int :: "real \<Rightarrow> int" where
  "py_int x = (if 0 \<le> x then \<lfloor>x\<rfloor> else \<lceil>x\<rceil>)"

definition Voice_heartbeat ::
  "'z env \<Rightarrow> DiscordVoiceWebSocket \<Rightarrow> exn option \<times> DiscordVoiceWebSocket" where
  "Voice_heartbeat env vws =
     and_then
       (Voice_send_as_json env
          (JDict [(''op'', JInt 3), (''d'', JInt (py_int (time_time (v_clock vws) * 1000)))]) vws)
       (\<lambda>vws'. (None, vws'\<lparr>v_heartbeat_sent_time := perf_counter (v_clock vws')\<rparr>))"

definition Voice_heartbeat_loop_step ::
  "'z env \<Rightarrow> DiscordVoiceWebSocket \<Rightarrow> exn option \<times> DiscordVoiceWebSocket" where
  "Voice_heartbeat_loop_step env vws =
     and_then (Voice_heartbeat env vws)
       (\<lambda>vws'. case create_future (v_loop_futures vws') of
                  (fut, futs) \<Rightarrow>
                    (None, vws'\<lparr>v_loop_futures := futs, v_heartbeat_ack_received := Some fut\<rparr>))"

text \<open>
  A voice connection and \<open>n\<close> exchanges on it: the loop sends a heartbeat and the
  \<^verbatim>\<open>HEARTBEAT_ACK\<close> for it is received.
\<close>

definition client0 :: VoiceClient where
  "client0 =
     \<lparr>ssrc = JNull, voice_port = JNull, endpoint_ip = JNull, ip = [], port = 0, mode = JNull,
      client_secret_key = JNull, supported_modes = [''xsalsa20_poly1305''], udp_sent = []\<rparr>"

definition voice0 :: DiscordVoiceWebSocket where
  "voice0 = DiscordVoiceWebSocket_init new_socket client0 clock0"

definition ack6 :: json where
  "ack6 = JDict [(''op'', JInt 6), (''d'', JNull)]"

fun heartbeat_rounds :: "'z env \<Rightarrow> nat \<Rightarrow> DiscordVoiceWebSocket \<Rightarrow> DiscordVoiceWebSocket" where
  "heartbeat_rounds env 0 vws = vws"
| "heartbeat_rounds env (Suc n) vws =
     snd (and_then (Voice_heartbeat_loop_step env (heartbeat_rounds env n vws))
            (Voice_received_message env [] ack6))"

text \<open>
  A \<^verbatim>\<open>READY\<close> payload of the voice gateway and a reply to the discovery packet: 74
  bytes, with the text \<^verbatim>\<open>203.0.113.5\<close> and a null byte from offset 8 on, and
  \<^verbatim>\<open>1F 90\<close> as its last two bytes.
\<close>

definition voice_ready :: "(string \<times> json) list" where
  "voice_ready =
     [(''ssrc'', JInt 1), (''port'', JInt 50000), (''ip'', JStr ''198.51.100.7''),
      (''modes'', JList [JStr ''xsalsa20_poly1305''])]"

definition discovery_reply :: "byte list" where
  "discovery_reply =
     replicate 8 0 @ [50, 48, 51, 46, 48, 46, 49, 49, 51, 46, 53] @ 0 # (replicate 52 0 @ [31, 144])"











text \<open>
  \<open>disconnect_completes\<close>: a call of \<open>Shard_disconnect\<close> runs to the last statement of
  \<^verbatim>\<open>disconnect\<close>. The shard has a socket, and the \<^verbatim>\<open>await\<close> of the socket's \<^verbatim>\<open>close\<close>
  does not raise \<^verbatim>\<open>CancelledError\<close>.
\<close>

definition disconnect_completes :: "bool \<Rightarrow> 'z Shard \<Rightarrow> bool" where
  "disconnect_completes own_task sh =
     (case sh_socket sh of
        None \<Rightarrow> False
      | Some sock \<Rightarrow> \<not> (own_task \<and> sh_connection_task sh \<and> close_suspends sock))"

text \<open>
  Payloads that end a session: \<^verbatim>\<open>INVALID_SESSION\<close> with the data \<^verbatim>\<open>false\<close> and the
  sequence number 8, and \<^verbatim>\<open>RECONNECT\<close> with the sequence number 8. \<open>dispatch_no_d\<close>
  carries the sequence number 8 and lacks the key \<^verbatim>\<open>d\<close>.
\<close>

definition invalid_session8 :: json where
  "invalid_session8 = JDict [(''t'', JNull), (''s'', JInt 8), (''op'', JInt 9), (''d'', JBool False)]"

definition reconnect8 :: json where
  "reconnect8 = JDict [(''t'', JNull), (''s'', JInt 8), (''op'', JInt 7), (''d'', JNull)]"

definition dispatch_no_d :: json where
  "dispatch_no_d = JDict [(''t'', JStr ''MESSAGE_CREATE''), (''s'', JInt 8), (''op'', JInt 0)]"

text \<open>
  One gateway message, the text \<^verbatim>\<open>{"t":null,"s":null,"op":11,"d":null}\<close>, as
  \<^verbatim>\<open>zlib\<close> compresses it at the start of a stream with a sync flush (34 bytes, the last
  four the marker), cut after its first 8 bytes into two frames. \<open>env_zlib\<close> is an
  environment whose decompressor maps these 34 bytes to the text and raises
  \<^verbatim>\<open>zlib.error\<close> on any other input.
\<close>

definition zlib_frame1 :: "byte list" where
  "zlib_frame1 = [120, 156, 170, 86, 42, 81, 178, 202]"

definition zlib_frame2 :: "byte list" where
  "zlib_frame2 =
     [43, 205, 201, 209, 81, 42, 134, 49, 242, 11, 148, 172, 12, 13, 117, 148, 82, 32, 2, 181,
      0, 0, 0, 0, 255, 255]"

definition zlib_plain :: "byte list" where
  "zlib_plain =
     [123, 34, 116, 34, 58, 110, 117, 108, 108, 44, 34, 115, 34, 58, 110, 117, 108, 108, 44, 34,
      111, 112, 34, 58, 49, 49, 44, 34, 100, 34, 58, 110, 117, 108, 108, 125]"

definition env_zlib :: "unit env" where
  "env_zlib =
     env0\<lparr>decompress := (\<lambda>z bs. if bs = zlib_frame1 @ zlib_frame2 then (Inr zlib_plain, z)
                                 else (Inl ZlibError, z))\<rparr>"

section \<open>The rate limiter\<close>

lemma block_first:
  "block t1 (GatewayRatelimiter_init 2 1)
     = (None, \<lparr>max_rl = 2, remaining = 1, window = t1, per = 1\<rparr>)"
  by (simp add: block_def get_delay_def GatewayRatelimiter_init_def)

lemma block_second:
  "t2 \<le> t1 + 1 \<Longrightarrow>
   block t2 \<lparr>max_rl = 2, remaining = 1, window = t1, per = 1\<rparr>
     = (None, \<lparr>max_rl = 2, remaining = 0, window = t2, per = 1\<rparr>)"
  by (simp add: block_def get_delay_def)

lemma block_third:
  "t3 < t2 + 1 \<Longrightarrow>
   block t3 \<lparr>max_rl = 2, remaining = 0, window = t2, per = 1\<rparr>
     = (Some (1 - (t3 - t2)), \<lparr>max_rl = 2, remaining = 0, window = t2, per = 1\<rparr>)"
  by (simp add: block_def get_delay_def)

lemma block_after_window:
  "t4 > t2 + 1 \<Longrightarrow>
   block t4 \<lparr>max_rl = 2, remaining = 0, window = t2, per = 1\<rparr>
     = (None, \<lparr>max_rl = 2, remaining = 1, window = t4, per = 1\<rparr>)"
  by (simp add: block_def get_delay_def)

text \<open>
  C6, as the code has it. A limiter of capacity 2 and window 1 receives three calls of
  \<open>block\<close> at the times \<open>t1\<close>, \<open>t2\<close>, \<open>t3\<close>, no window running out between them. The
  first two calls do not sleep. The third sleeps for the rest of the window, \<open>per\<close>
  minus the time since \<open>window\<close>, and leaves the limiter as it found it: \<open>remaining\<close> is
  still 0 when the call returns. The counter is set back to the capacity by the next
  call that reads a time later than \<open>window + per\<close>, which then takes one slot.
\<close>

theorem C6_third_block_waits:
  assumes "t2 \<le> t1 + 1" and "t3 < t2 + 1"
  shows "(let rl0 = GatewayRatelimiter_init 2 1;
              r1 = block t1 rl0; r2 = block t2 (snd r1); r3 = block t3 (snd r2)
          in fst r1 = None \<and> fst r2 = None \<and> window (snd r2) = t2 \<and> per (snd r2) = 1 \<and>
             fst r3 = Some (per (snd r2) - (t3 - window (snd r2))) \<and>
             snd r3 = snd r2 \<and> remaining (snd r3) = 0 \<and> max_rl (snd r3) = 2 \<and>
             (\<forall>t4. t4 > window (snd r3) + per (snd r3) \<longrightarrow>
                fst (block t4 (snd r3)) = None \<and> remaining (snd (block t4 (snd r3))) = 1))"
  using assms
  by (simp add: Let_def block_first block_second block_third block_after_window)

theorem C6_third_block_waits_witness:
  "(1000 :: real) \<le> 1000 + 1 \<and> (1000 :: real) < 1000 + 1 \<and>
   fst (block 1000 (snd (block 1000 (snd (block 1000 (GatewayRatelimiter_init 2 1))))))
     = Some (1 - (1000 - 1000))"
proof -
  have a: "(1000 :: real) \<le> 1000 + 1" and b: "(1000 :: real) < 1000 + 1"
    by simp_all
  show ?thesis
    using C6_third_block_waits [OF a b] by (simp add: Let_def)
qed

text \<open>
  C6 as stated fails: three calls at the same time, the third sleeps for one second,
  and when it returns \<open>remaining\<close> is 0, not the capacity 2.
\<close>

theorem C6_counterexample:
  "fst (block 1000 (snd (block 1000 (snd (block 1000 (GatewayRatelimiter_init 2 1))))))
     = Some 1 \<and>
   remaining (snd (block 1000 (snd (block 1000 (snd (block 1000
     (GatewayRatelimiter_init 2 1))))))) = 0 \<and>
   max_rl (snd (block 1000 (snd (block 1000 (snd (block 1000
     (GatewayRatelimiter_init 2 1))))))) = 2"
  by (simp add: block_first block_second block_third)

section \<open>Close codes and failed writes\<close>


lemma effective_close_code_heartbeat_task [simp]:
  "effective_close_code (ws\<lparr>heartbeat_task := b\<rparr>) = effective_close_code ws"
  by (simp add: effective_close_code_def split: option.splits)

lemma can_handle_close_heartbeat_task [simp]:
  "can_handle_close (ws\<lparr>heartbeat_task := b\<rparr>) = can_handle_close ws"
  by (simp add: can_handle_close_def)




lemma effective_ws_closed_with [simp]: "effective_close_code (ws_closed_with c) = Some c"
  by (simp add: ws_closed_with_def ws0_def DiscordWebSocket_init_def effective_close_code_def new_socket_def)

lemma shard_id_ws_closed_with [simp]: "shard_id (ws_closed_with c) = None"
  by (simp add: ws_closed_with_def ws0_def DiscordWebSocket_init_def)


lemma can_handle_close_cong:
  "close_code ws' = close_code ws \<Longrightarrow> socket_close_code (socket ws') = socket_close_code (socket ws)
   \<Longrightarrow> can_handle_close ws' = can_handle_close ws"
  by (simp add: can_handle_close_def effective_close_code_def split: option.splits)

lemma send_when_write_fails:
  assumes "send_fails (socket ws) = Some e"
  shows "\<exists>ws'. send data ws = (Some e, ws') \<and> close_code ws' = close_code ws \<and>
           socket_close_code (socket ws') = socket_close_code (socket ws) \<and>
           shard_id ws' = shard_id ws"
  using assms by (simp add: send_def send_str_def Let_def split: prod.splits)

lemma send_as_json_when_write_fails:
  assumes "send_fails (socket ws) = Some RuntimeError"
  shows "fst (send_as_json env data ws)
           = (if can_handle_close ws then None else Some (ConnectionClosed (shard_id ws) None))"
proof -
  obtain ws' where w: "send (to_json env data) ws = (Some RuntimeError, ws')"
    and c: "close_code ws' = close_code ws"
           "socket_close_code (socket ws') = socket_close_code (socket ws)"
    and i: "shard_id ws' = shard_id ws"
    using send_when_write_fails [OF assms] by blast
  have "can_handle_close ws' = can_handle_close ws"
    using c by (rule can_handle_close_cong)
  then show ?thesis
    by (simp add: send_as_json_def w i)
qed

lemma send_heartbeat_when_write_fails:
  assumes "send_fails (socket ws) = Some RuntimeError"
  shows "fst (send_heartbeat env data ws)
           = (if can_handle_close ws then None else Some (ConnectionClosed (shard_id ws) None))"
  using assms by (simp add: send_heartbeat_def send_str_def)

text \<open>
  C5, as the code has it. When the write of a frame raises \<^verbatim>\<open>RuntimeError\<close>,
  \<open>send_as_json\<close> and \<open>send_heartbeat\<close> swallow the error exactly when
  \<open>can_handle_close\<close> is true (the closure is resumable) and raise \<^verbatim>\<open>ConnectionClosed\<close>
  exactly when it is false (one of the fatal close codes).
\<close>

theorem C5_closed_socket_write:
  assumes "send_fails (socket ws) = Some RuntimeError"
  shows "fst (send_as_json env data ws)
           = (if can_handle_close ws then None else Some (ConnectionClosed (shard_id ws) None)) \<and>
         fst (send_heartbeat env data ws)
           = (if can_handle_close ws then None else Some (ConnectionClosed (shard_id ws) None))"
  using send_as_json_when_write_fails [OF assms] send_heartbeat_when_write_fails [OF assms]
  by simp

lemma send_fails_ws_closed_with [simp]:
  "send_fails (socket (ws_closed_with c)) = Some RuntimeError"
  by (simp add: ws_closed_with_def new_socket_def)

theorem C5_closed_socket_write_witness:
  "send_fails (socket (ws_closed_with 1006)) = Some RuntimeError \<and>
   fst (send_as_json env0 JNull (ws_closed_with 1006)) = None \<and>
   fst (send_heartbeat env0 JNull (ws_closed_with 1006)) = None"
  using C5_closed_socket_write [of "ws_closed_with 1006" env0 JNull]
  by (simp add: can_handle_close_def)

text \<open>
  C5 as stated fails: with the fatal close code 1000, \<open>can_handle_close\<close> is false and
  the write error is not swallowed, \<open>send_as_json\<close> raises \<^verbatim>\<open>ConnectionClosed\<close>.
\<close>

theorem C5_counterexample:
  "send_fails (socket (ws_closed_with 1000)) = Some RuntimeError \<and>
   \<not> can_handle_close (ws_closed_with 1000) \<and>
   fst (send_as_json env0 JNull (ws_closed_with 1000)) = Some (ConnectionClosed None None)"
  using send_as_json_when_write_fails [of "ws_closed_with 1000" env0 JNull]
  by (simp add: can_handle_close_def)

section \<open>Heartbeats and the rate limiter\<close>

lemma heartbeat_bypasses_rate_limiter:
  "rate_limiter (snd (heartbeat env ws)) = rate_limiter ws \<and>
   clock (snd (heartbeat env ws)) = clock ws"
  by (simp add: heartbeat_def send_heartbeat_def send_str_def and_then_def
      split: option.splits prod.splits)

lemma Shard_send_open:
  "sh_socket sh = Some sock \<Longrightarrow> send_fails sock = None \<Longrightarrow> \<not> sh_debug sh \<Longrightarrow>
   Shard_send data sh =
     (None, sh\<lparr>sh_rate_limiter := snd (block (time_time (sh_clock sh)) (sh_rate_limiter sh)),
              sh_clock := (case fst (block (time_time (sh_clock sh)) (sh_rate_limiter sh)) of
                             None \<Rightarrow> sh_clock sh | Some delta \<Rightarrow> sleep delta (sh_clock sh)),
              sh_socket := Some (sock\<lparr>sent := sent sock @ [data]\<rparr>)\<rparr>)"
  by (simp add: Shard_send_def send_str_def Let_def split: prod.splits)

lemma block_fresh:
  "block 1000 (GatewayRatelimiter_init 110 60)
     = (None, \<lparr>max_rl = 110, remaining = 109, window = 1000, per = 60\<rparr>)"
  by (simp add: block_def get_delay_def GatewayRatelimiter_init_def)

lemma block_exhausted:
  "block 1000 \<lparr>max_rl = 110, remaining = 0, window = 1000, per = 60\<rparr>
     = (Some 60, \<lparr>max_rl = 110, remaining = 0, window = 1000, per = 60\<rparr>)"
  by (simp add: block_def get_delay_def)

lemma shard0_simps:
  "sh_socket shard0 = Some new_socket" "\<not> sh_debug shard0"
  "sh_rate_limiter shard0 = GatewayRatelimiter_init 110 60" "sh_clock shard0 = clock0"
  by (simp_all add: shard0_def Shard_connect_def Shard_init_def)

text \<open>
  C4 at a connected \<^verbatim>\<open>Shard\<close>. \<open>Shard_heartbeat\<close> sends through \<open>Shard_send\<close>, which
  goes through the rate limiter: on a fresh limiter the heartbeat takes a slot
  (\<open>remaining\<close> falls from 110 to 109), and on a limiter with no slot left in the running
  window it sleeps the 60 seconds of the window before it writes. The heartbeat of
  \<^verbatim>\<open>DiscordWebSocket\<close> leaves limiter and clock alone, \<open>heartbeat_bypasses_rate_limiter\<close>.
\<close>

theorem C4_Shard_heartbeat_rate_limited:
  "remaining (sh_rate_limiter shard0) = 110 \<and>
   fst (Shard_heartbeat env0 shard0) = None \<and>
   remaining (sh_rate_limiter (snd (Shard_heartbeat env0 shard0))) = 109 \<and>
   time_time (sh_clock
     (snd (Shard_heartbeat env0
        (shard0\<lparr>sh_rate_limiter := \<lparr>max_rl = 110, remaining = 0, window = 1000, per = 60\<rparr>\<rparr>))))
     = time_time (sh_clock shard0) + 60"
proof -
  have a: "remaining (sh_rate_limiter shard0) = 110"
    by (simp add: shard0_simps GatewayRatelimiter_init_def)
  have b: "Shard_send data shard0
     = (None, shard0\<lparr>sh_rate_limiter :=
                        \<lparr>max_rl = 110, remaining = 109, window = 1000, per = 60\<rparr>,
                      sh_clock := clock0,
                      sh_socket := Some (new_socket\<lparr>sent := sent new_socket @ [data]\<rparr>)\<rparr>)"
    for data
    by (subst Shard_send_open [of shard0 new_socket])
       (simp_all add: shard0_simps new_socket_def clock0_def block_fresh)
  have c: "Shard_send data
       (shard0\<lparr>sh_rate_limiter := \<lparr>max_rl = 110, remaining = 0, window = 1000, per = 60\<rparr>\<rparr>)
     = (None, shard0\<lparr>sh_rate_limiter :=
                        \<lparr>max_rl = 110, remaining = 0, window = 1000, per = 60\<rparr>,
                      sh_clock := sleep 60 clock0,
                      sh_socket := Some (new_socket\<lparr>sent := sent new_socket @ [data]\<rparr>)\<rparr>)"
    for data
    by (subst Shard_send_open [of _ new_socket])
       (simp_all add: shard0_simps new_socket_def clock0_def block_exhausted)
  show ?thesis
    using a by (simp add: Shard_heartbeat_def and_then_def b c sleep_def clock0_def shard0_simps)
qed

section \<open>The stored sequence\<close>

lemma heartbeat_frame:
  "sequence (snd (heartbeat env ws)) = sequence ws \<and>
   latency (snd (heartbeat env ws)) = latency ws \<and>
   loop_futures (snd (heartbeat env ws)) = loop_futures ws \<and>
   heartbeat_ack_received (snd (heartbeat env ws)) = heartbeat_ack_received ws"
  by (simp add: heartbeat_def send_heartbeat_def send_str_def and_then_def
      split: option.splits prod.splits)

lemma on_ready_sequence:
  "sequence (snd (on_ready data seq ws))
     = (case data of JDict kvs \<Rightarrow> seq | _ \<Rightarrow> sequence ws)"
  by (simp add: on_ready_def Let_def split: json.splits option.splits)

lemma on_resumed_sequence: "sequence (snd (on_resumed data ws)) = sequence ws"
  by (simp add: on_resumed_def Let_def split: json.splits option.splits)

lemma dispatch_event_sequence:
  assumes "sequence ws = seq"
  shows "sequence (snd (dispatch_event ev data seq ws)) = seq"
proof -
  define r where "r = (if ev = JStr ''READY'' then on_ready data seq ws
            else if ev = JStr ''RESUMED'' then on_resumed data ws
            else (Inr data, ws))"
  have "sequence (snd r) = seq"
    using assms by (simp add: r_def on_ready_sequence on_resumed_sequence split: json.splits)
  then show ?thesis
    unfolding dispatch_event_def r_def [symmetric]
    by (cases r) (simp split: sum.splits option.splits prod.splits)
qed

lemma and_then_snd:
  "snd (and_then r f) = (case fst r of None \<Rightarrow> snd (f (snd r)) | Some e \<Rightarrow> snd r)"
  by (cases r) (simp add: and_then_def split: option.splits)

lemma and_then_fst:
  "fst (and_then r f) = (case fst r of None \<Rightarrow> fst (f (snd r)) | Some e \<Rightarrow> Some e)"
  by (cases r) (simp add: and_then_def split: option.splits)

lemma and_then_return: "and_then (None, x) f = f x" "and_then r (\<lambda>x. (None, x)) = r"
  by (cases r; simp add: and_then_def split: option.splits)+

lemma py_eq_int_unique: "py_eq_int v j \<Longrightarrow> py_eq_int v k \<Longrightarrow> j = k"
  by (auto simp: py_eq_int_def split: json.splits)

lemma handle_opcode_sequence:
  "sequence (snd (handle_opcode env opv data ws))
     = (if py_eq_int opv 9 \<and> data \<noteq> JBool True then JNull else sequence ws)"
proof (cases "py_eq_int opv 9")
  case True
  then have "\<not> py_eq_int opv 7" "\<not> py_eq_int opv 11" "\<not> py_eq_int opv 1" "\<not> py_eq_int opv 10"
    using py_eq_int_unique [of opv 9] by fastforce+
  then show ?thesis
    using True by (simp add: handle_opcode_def close_def)
next
  case False
  then show ?thesis
    by (simp add: handle_opcode_def close_def heartbeat_frame and_then_snd
        split: option.splits sum.splits)
qed

text \<open>What \<open>read_message\<close> gives for a dict, by the keys it has.\<close>

lemma read_message_keys:
  assumes "map_of kvs ''op'' = Some opv" and "map_of kvs ''d'' = Some data"
    and "map_of kvs ''s'' = Some seq"
  obtains ws2 where
    "read_message (JDict kvs) ws
       = (Inr (case map_of kvs ''t'' of None \<Rightarrow> JNull | Some v \<Rightarrow> v, opv, data, seq), ws2)"
    "sequence ws2 = (if seq \<noteq> JNull then seq else sequence ws)"
    "dispatch_listeners ws2 = dispatch_listeners ws" "loop_futures ws2 = loop_futures ws"
    "shard_id ws2 = shard_id ws" "heartbeat_ack_received ws2 = heartbeat_ack_received ws"
    "discord_parsers ws2 = discord_parsers ws" "latency ws2 = latency ws"
proof -
  define ws1 where "ws1 =
    (if truthy (case map_of kvs ''t'' of None \<Rightarrow> JNull | Some v \<Rightarrow> v)
     then ws\<lparr>dispatch_log := dispatch_log ws @
               [(''socket_event_type'', case map_of kvs ''t'' of None \<Rightarrow> JNull | Some v \<Rightarrow> v)]\<rparr>
     else ws)"
  define ws2 where "ws2 = (if seq \<noteq> JNull then ws1\<lparr>sequence := seq\<rparr> else ws1)"
  have "read_message (JDict kvs) ws
       = (Inr (case map_of kvs ''t'' of None \<Rightarrow> JNull | Some v \<Rightarrow> v, opv, data, seq), ws2)"
    using assms by (simp add: read_message_def Let_def ws1_def ws2_def)
  moreover have "sequence ws2 = (if seq \<noteq> JNull then seq else sequence ws)"
    "dispatch_listeners ws2 = dispatch_listeners ws" "loop_futures ws2 = loop_futures ws"
    "shard_id ws2 = shard_id ws" "heartbeat_ack_received ws2 = heartbeat_ack_received ws"
    "discord_parsers ws2 = discord_parsers ws" "latency ws2 = latency ws"
    by (simp_all add: ws1_def ws2_def)
  ultimately show ?thesis
    by (rule that)
qed

lemma read_message_key_absent:
  assumes "map_of kvs ''op'' = None \<or> map_of kvs ''d'' = None \<or> map_of kvs ''s'' = None"
  shows "fst (read_message (JDict kvs) ws) = Inl KeyError \<and>
         sequence (snd (read_message (JDict kvs) ws)) = sequence ws \<and>
         dispatch_listeners (snd (read_message (JDict kvs) ws)) = dispatch_listeners ws \<and>
         loop_futures (snd (read_message (JDict kvs) ws)) = loop_futures ws \<and>
         heartbeat_ack_received (snd (read_message (JDict kvs) ws)) = heartbeat_ack_received ws \<and>
         latency (snd (read_message (JDict kvs) ws)) = latency ws"
  using assms by (auto simp: read_message_def Let_def split: option.splits)

lemma process_message_read:
  assumes "from_json env msg = Inr message"
  shows "process_message env msg ws =
     (case read_message message
             (if enable_debug_events ws
              then ws\<lparr>dispatch_log := dispatch_log ws @ [(''socket_raw_receive'', JStr msg)]\<rparr>
              else ws) of
        (Inl e, ws1) \<Rightarrow> (Some e, ws1)
      | (Inr (ev, opv, data, seq), ws2) \<Rightarrow>
          if \<not> py_eq_int opv 0 then handle_opcode env opv data ws2
          else dispatch_event ev data seq ws2)"
  using assms by (simp add: process_message_def Let_def)

lemma process_message_sequence:
  assumes "from_json env msg = Inr (JDict kvs)"
    and "map_of kvs ''op'' = Some opv" and "map_of kvs ''d'' = Some data"
    and "map_of kvs ''s'' = Some seq" and "seq \<noteq> JNull"
  shows "sequence (snd (process_message env msg ws))
     = (if py_eq_int opv 9 \<and> data \<noteq> JBool True then JNull else seq)"
proof -
  let ?ws0 = "if enable_debug_events ws
              then ws\<lparr>dispatch_log := dispatch_log ws @ [(''socket_raw_receive'', JStr msg)]\<rparr>
              else ws"
  obtain ws2 where rm: "read_message (JDict kvs) ?ws0
       = (Inr (case map_of kvs ''t'' of None \<Rightarrow> JNull | Some v \<Rightarrow> v, opv, data, seq), ws2)"
    and sq: "sequence ws2 = (if seq \<noteq> JNull then seq else sequence ?ws0)"
    by (rule read_message_keys [OF assms(2,3,4), of ?ws0])
  have sq': "sequence ws2 = seq"
    using sq assms(5) by simp
  have "py_eq_int opv 9 \<Longrightarrow> \<not> py_eq_int opv 0"
    using py_eq_int_unique [of opv 9 0] by auto
  then show ?thesis
    unfolding process_message_read [OF assms(1)] rm
    by (simp add: handle_opcode_sequence dispatch_event_sequence sq')
qed

lemma process_message_key_absent:
  assumes "from_json env msg = Inr (JDict kvs)"
    and "map_of kvs ''op'' = None \<or> map_of kvs ''d'' = None \<or> map_of kvs ''s'' = None"
  shows "fst (process_message env msg ws) = Some KeyError \<and>
         sequence (snd (process_message env msg ws)) = sequence ws \<and>
         dispatch_listeners (snd (process_message env msg ws)) = dispatch_listeners ws \<and>
         loop_futures (snd (process_message env msg ws)) = loop_futures ws \<and>
         heartbeat_ack_received (snd (process_message env msg ws)) = heartbeat_ack_received ws \<and>
         latency (snd (process_message env msg ws)) = latency ws"
proof -
  let ?ws0 = "if enable_debug_events ws
              then ws\<lparr>dispatch_log := dispatch_log ws @ [(''socket_raw_receive'', JStr msg)]\<rparr>
              else ws"
  obtain r ws1 where rm: "read_message (JDict kvs) ?ws0 = (r, ws1)"
    by (cases "read_message (JDict kvs) ?ws0")
  have "r = Inl KeyError" "sequence ws1 = sequence ?ws0"
    "dispatch_listeners ws1 = dispatch_listeners ?ws0" "loop_futures ws1 = loop_futures ?ws0"
    "heartbeat_ack_received ws1 = heartbeat_ack_received ?ws0" "latency ws1 = latency ?ws0"
    using read_message_key_absent [OF assms(2), of ?ws0] rm by simp_all
  then show ?thesis
    unfolding process_message_read [OF assms(1)] rm by simp
qed

lemma Shard_send_frame:
  "sh_sequence (snd (Shard_send data sh)) = sh_sequence sh \<and>
   sh_session_id (snd (Shard_send data sh)) = sh_session_id sh \<and>
   sh_latency (snd (Shard_send data sh)) = sh_latency sh \<and>
   sh_loop_futures (snd (Shard_send data sh)) = sh_loop_futures sh \<and>
   sh_heartbeat_ack_received (snd (Shard_send data sh)) = sh_heartbeat_ack_received sh \<and>
   sh_connection_task (snd (Shard_send data sh)) = sh_connection_task sh \<and>
   (sh_socket (snd (Shard_send data sh)) = None) = (sh_socket sh = None)"
  by (simp add: Shard_send_def Let_def split: option.splits prod.splits)

lemma Shard_heartbeat_frame:
  "sh_sequence (snd (Shard_heartbeat env sh)) = sh_sequence sh \<and>
   sh_session_id (snd (Shard_heartbeat env sh)) = sh_session_id sh \<and>
   sh_latency (snd (Shard_heartbeat env sh)) = sh_latency sh \<and>
   sh_loop_futures (snd (Shard_heartbeat env sh)) = sh_loop_futures sh \<and>
   sh_heartbeat_ack_received (snd (Shard_heartbeat env sh)) = sh_heartbeat_ack_received sh \<and>
   sh_connection_task (snd (Shard_heartbeat env sh)) = sh_connection_task sh \<and>
   (sh_socket (snd (Shard_heartbeat env sh)) = None) = (sh_socket sh = None)"
  by (simp add: Shard_heartbeat_def and_then_snd Shard_send_frame split: option.splits)

lemma Shard_identify_frame:
  "sh_sequence (snd (Shard_identify env sh)) = sh_sequence sh \<and>
   (sh_socket (snd (Shard_identify env sh)) = None) = (sh_socket sh = None)"
  by (simp add: Shard_identify_def Let_def Shard_send_frame)

lemma Shard_resume_frame:
  "sh_sequence (snd (Shard_resume env sh)) = sh_sequence sh \<and>
   (sh_socket (snd (Shard_resume env sh)) = None) = (sh_socket sh = None)"
  by (simp add: Shard_resume_def Shard_send_frame)

lemma Shard_dispatch_events_frame:
  "sh_sequence (snd (Shard_dispatch_events data ev sh)) = sh_sequence sh \<and>
   sh_socket (snd (Shard_dispatch_events data ev sh)) = sh_socket sh \<and>
   sh_connection_task (snd (Shard_dispatch_events data ev sh)) = sh_connection_task sh"
proof -
  define r where "r =
    (if ev = JStr ''READY'' then
       (case data of
          JDict kvs \<Rightarrow>
            (case map_of kvs ''session_id'' of
               None \<Rightarrow> (Inl KeyError, sh)
             | Some sid \<Rightarrow>
                 (let sh1 = sh\<lparr>sh_session_id := sid\<rparr>
                  in case map_of kvs ''resume_gateway_url'' of
                       None \<Rightarrow> (Inl KeyError, sh1)
                     | Some url \<Rightarrow>
                         (Inr (JDict (AList.update ''__shard_id__''
                                        (JInt (sh_shard_id sh1)) kvs)),
                          sh1\<lparr>sh_resume_url := url\<rparr>)))
        | _ \<Rightarrow> (Inl TypeError, sh))
     else if ev = JStr ''RESUMED'' then
       (case data of
          JDict kvs \<Rightarrow>
            (Inr (JDict (AList.update ''__shard_id__'' (JInt (sh_shard_id sh)) kvs)), sh)
        | _ \<Rightarrow> (Inl TypeError, sh))
     else (Inr data, sh))"
  have "sh_sequence (snd r) = sh_sequence sh \<and> sh_socket (snd r) = sh_socket sh \<and>
        sh_connection_task (snd r) = sh_connection_task sh"
    by (simp add: r_def Let_def split: json.splits option.splits)
  then show ?thesis
    unfolding Shard_dispatch_events_def r_def [symmetric]
    by (cases r) (simp split: sum.splits option.splits prod.splits)
qed

lemma Shard_disconnect_sequence:
  "sh_sequence (snd (Shard_disconnect own_task keep sh))
     = (if disconnect_completes own_task sh \<and> \<not> keep then JNull else sh_sequence sh)"
  by (simp add: Shard_disconnect_def disconnect_completes_def Let_def split: option.splits)

lemma disconnect_completes_sequence [simp]:
  "disconnect_completes own_task (sh\<lparr>sh_sequence := x\<rparr>) = disconnect_completes own_task sh"
  by (simp add: disconnect_completes_def split: option.splits)

lemma Shard_process_payload_sequence:
  assumes "map_of kvs ''s'' = Some seq" and "seq \<noteq> JNull"
  shows "sh_sequence (snd (Shard_process_payload env own_task (JDict kvs) sh))
     = (if disconnect_completes own_task sh \<and>
           (map_of kvs ''op'' = Some (JInt 7) \<or>
            map_of kvs ''op'' = Some (JInt 9) \<and>
              (\<exists>data. map_of kvs ''d'' = Some data \<and> \<not> truthy data))
        then JNull else seq)"
proof (cases "map_of kvs ''op''")
  case None
  then show ?thesis
    using assms by (simp add: Shard_process_payload_def Let_def)
next
  case (Some opv)
  consider "opv = JInt 0" | "opv = JInt 7" | "opv = JInt 11" | "opv = JInt 1"
    | "opv = JInt 10" | "opv = JInt 9" | "opv \<notin> JInt ` {0, 7, 11, 1, 10, 9}"
    by auto
  then show ?thesis
  proof cases
    case 1
    then show ?thesis using assms Some
      by (simp add: Shard_process_payload_def Let_def py_is_int_def and_then_snd
          Shard_dispatch_events_frame split: option.splits)
  next
    case 2
    then show ?thesis using assms Some
      by (simp add: Shard_process_payload_def Let_def py_is_int_def and_then_return
          Shard_disconnect_sequence)
  next
    case 3
    then show ?thesis using assms Some
      by (simp add: Shard_process_payload_def Let_def py_is_int_def and_then_snd
          split: option.splits sum.splits)
  next
    case 4
    then show ?thesis using assms Some
      by (simp add: Shard_process_payload_def Let_def py_is_int_def and_then_snd
          Shard_heartbeat_frame split: option.splits)
  next
    case 5
    then show ?thesis using assms Some
      by (simp add: Shard_process_payload_def Let_def py_is_int_def and_then_snd
          Shard_heartbeat_frame Shard_identify_frame Shard_resume_frame
          split: option.splits sum.splits)
  next
    case 6
    then show ?thesis using assms Some
      by (simp add: Shard_process_payload_def Let_def py_is_int_def and_then_return
          Shard_disconnect_sequence split: option.splits)
  next
    case 7
    then show ?thesis using assms Some
      by (simp add: Shard_process_payload_def Let_def py_is_int_def and_then_snd)
  qed
qed

text \<open>
  C3, as the code has it. A payload that carries a sequence number \<open>seq\<close> (the key
  \<^verbatim>\<open>s\<close>, not \<^verbatim>\<open>null\<close>) is processed by assigning that number, whether it is above or
  below the number stored before.

  \<open>received_message\<close> reads the keys \<^verbatim>\<open>op\<close> and \<^verbatim>\<open>d\<close> before it assigns. With both
  present, the stored sequence is \<open>seq\<close> afterwards, except after an
  \<^verbatim>\<open>INVALIDATE_SESSION\<close> whose data is not \<^verbatim>\<open>True\<close>, which leaves it \<^verbatim>\<open>None\<close>. With one
  of them absent the method raises \<^verbatim>\<open>KeyError\<close> and the stored sequence is the one stored
  before.

  \<open>Shard_process_payload\<close> assigns first. The stored sequence is \<open>seq\<close> afterwards,
  except when the payload makes the shard disconnect without keeping the session (a
  \<^verbatim>\<open>RECONNECT\<close>, or an \<^verbatim>\<open>INVALID_SESSION\<close> whose data is falsy) and \<^verbatim>\<open>disconnect\<close> runs
  to its end: then it is \<^verbatim>\<open>None\<close>. When \<^verbatim>\<open>disconnect\<close> is cut short by the cancellation of
  its own task, or the shard has no socket, the stored sequence stays \<open>seq\<close>.
\<close>

theorem C3_sequence_is_assigned:
  assumes "from_json env msg = Inr (JDict kvs)"
    and "map_of kvs ''s'' = Some seq" and "seq \<noteq> JNull"
  shows "(\<forall>opv data. map_of kvs ''op'' = Some opv \<and> map_of kvs ''d'' = Some data \<longrightarrow>
            sequence (snd (received_message env (Str msg) ws))
              = (if py_eq_int opv 9 \<and> data \<noteq> JBool True then JNull else seq)) \<and>
         (map_of kvs ''op'' = None \<or> map_of kvs ''d'' = None \<longrightarrow>
            fst (received_message env (Str msg) ws) = Some KeyError \<and>
            sequence (snd (received_message env (Str msg) ws)) = sequence ws) \<and>
         sh_sequence (snd (Shard_process_payload env own_task (JDict kvs) sh))
           = (if disconnect_completes own_task sh \<and>
                 (map_of kvs ''op'' = Some (JInt 7) \<or>
                  map_of kvs ''op'' = Some (JInt 9) \<and>
                    (\<exists>data. map_of kvs ''d'' = Some data \<and> \<not> truthy data))
              then JNull else seq)"
proof (intro conjI allI impI)
  fix opv data
  assume "map_of kvs ''op'' = Some opv \<and> map_of kvs ''d'' = Some data"
  then show "sequence (snd (received_message env (Str msg) ws))
      = (if py_eq_int opv 9 \<and> data \<noteq> JBool True then JNull else seq)"
    using process_message_sequence [OF assms(1) _ _ assms(2,3), of opv data ws]
    by (simp add: received_message_def)
next
  assume a: "map_of kvs ''op'' = None \<or> map_of kvs ''d'' = None"
  then have b: "map_of kvs ''op'' = None \<or> map_of kvs ''d'' = None \<or> map_of kvs ''s'' = None"
    by blast
  show "fst (received_message env (Str msg) ws) = Some KeyError"
    using process_message_key_absent [OF assms(1) b, of ws] by (simp add: received_message_def)
  show "sequence (snd (received_message env (Str msg) ws)) = sequence ws"
    using process_message_key_absent [OF assms(1) b, of ws] by (simp add: received_message_def)
next
  show "sh_sequence (snd (Shard_process_payload env own_task (JDict kvs) sh))
           = (if disconnect_completes own_task sh \<and>
                 (map_of kvs ''op'' = Some (JInt 7) \<or>
                  map_of kvs ''op'' = Some (JInt 9) \<and>
                    (\<exists>data. map_of kvs ''d'' = Some data \<and> \<not> truthy data))
              then JNull else seq)"
    by (rule Shard_process_payload_sequence [OF assms(2,3)])
qed

lemma shard0_connection:
  "sh_socket (shard0\<lparr>sh_sequence := x\<rparr>) = Some new_socket"
  "sh_connection_task (shard0\<lparr>sh_sequence := x\<rparr>)" "close_suspends new_socket"
  "sh_heartbeat_ack_received (shard0\<lparr>sh_sequence := x\<rparr>) = None"
  by (simp_all add: shard0_def Shard_connect_def Shard_init_def new_socket_def)

theorem C3_sequence_is_assigned_witness:
  "from_json (env_of dispatch6) ''{}'' = Inr dispatch6 \<and>
   sequence (ws0\<lparr>sequence := JInt 7\<rparr>) = JInt 7 \<and>
   sequence (snd (received_message (env_of dispatch6) (Str ''{}'') (ws0\<lparr>sequence := JInt 7\<rparr>)))
     = JInt 6 \<and>
   sh_sequence (snd (Shard_process_payload (env_of dispatch6) True dispatch6
                       (shard0\<lparr>sh_sequence := JInt 7\<rparr>))) = JInt 6 \<and>
   from_json (env_of dispatch_no_d) ''{}'' = Inr dispatch_no_d \<and>
   fst (received_message (env_of dispatch_no_d) (Str ''{}'') (ws0\<lparr>sequence := JInt 7\<rparr>))
     = Some KeyError \<and>
   sequence (snd (received_message (env_of dispatch_no_d) (Str ''{}'')
                    (ws0\<lparr>sequence := JInt 7\<rparr>))) = JInt 7 \<and>
   sh_sequence (snd (Shard_process_payload (env_of dispatch_no_d) True dispatch_no_d
                       (shard0\<lparr>sh_sequence := JInt 7\<rparr>))) = JInt 8"
  using C3_sequence_is_assigned [where env = "env_of dispatch6" and msg = "''{}''"
      and kvs = "[(''t'', JStr ''MESSAGE_CREATE''), (''s'', JInt 6), (''op'', JInt 0),
                  (''d'', JDict [])]"
      and seq = "JInt 6" and ws = "ws0\<lparr>sequence := JInt 7\<rparr>" and own_task = True
      and sh = "shard0\<lparr>sh_sequence := JInt 7\<rparr>"]
    C3_sequence_is_assigned [where env = "env_of dispatch_no_d" and msg = "''{}''"
      and kvs = "[(''t'', JStr ''MESSAGE_CREATE''), (''s'', JInt 8), (''op'', JInt 0)]"
      and seq = "JInt 8" and ws = "ws0\<lparr>sequence := JInt 7\<rparr>" and own_task = True
      and sh = "shard0\<lparr>sh_sequence := JInt 7\<rparr>"]
  by (simp add: env_of_def dispatch6_def dispatch_no_d_def py_eq_int_def)

text \<open>
  C3 as stated fails: with 7 stored, a dispatch numbered 6 moves the stored sequence
  back to 6, in both classes. The sequence is not only advanced in other ways either.
  With 7 stored, an \<^verbatim>\<open>INVALIDATE_SESSION\<close> numbered 8 whose data is \<^verbatim>\<open>false\<close> leaves
  \<^verbatim>\<open>None\<close> in the \<^verbatim>\<open>DiscordWebSocket\<close>, and so does a \<^verbatim>\<open>RECONNECT\<close> numbered 8 in a
  \<^verbatim>\<open>Shard\<close> whose \<^verbatim>\<open>disconnect\<close> runs to its end (called from outside the connection
  task); called in the connection task, \<^verbatim>\<open>disconnect\<close> raises \<^verbatim>\<open>CancelledError\<close> at the
  \<^verbatim>\<open>await\<close> of \<^verbatim>\<open>close\<close> and the 8 stays. A dispatch numbered 8 that lacks the key
  \<^verbatim>\<open>d\<close> raises \<^verbatim>\<open>KeyError\<close> in the \<^verbatim>\<open>DiscordWebSocket\<close> before the assignment: the 7
  stays.
\<close>

theorem C3_counterexample:
  "sequence (ws0\<lparr>sequence := JInt 7\<rparr>) = JInt 7 \<and>
   sequence (snd (received_message (env_of dispatch6) (Str ''{}'') (ws0\<lparr>sequence := JInt 7\<rparr>)))
     = JInt 6 \<and>
   sh_sequence (snd (Shard_process_payload (env_of dispatch6) True dispatch6
                       (shard0\<lparr>sh_sequence := JInt 7\<rparr>))) = JInt 6 \<and>
   sequence (snd (received_message (env_of invalid_session8) (Str ''{}'')
                    (ws0\<lparr>sequence := JInt 7\<rparr>))) = JNull \<and>
   sh_sequence (snd (Shard_process_payload env0 False reconnect8 (shard0\<lparr>sh_sequence := JInt 7\<rparr>)))
     = JNull \<and>
   fst (Shard_process_payload env0 True reconnect8 (shard0\<lparr>sh_sequence := JInt 7\<rparr>))
     = Some CancelledError \<and>
   sh_sequence (snd (Shard_process_payload env0 True reconnect8 (shard0\<lparr>sh_sequence := JInt 7\<rparr>)))
     = JInt 8 \<and>
   fst (received_message (env_of dispatch_no_d) (Str ''{}'') (ws0\<lparr>sequence := JInt 7\<rparr>))
     = Some KeyError \<and>
   sequence (snd (received_message (env_of dispatch_no_d) (Str ''{}'')
                    (ws0\<lparr>sequence := JInt 7\<rparr>))) = JInt 7"
proof -
  let ?ws = "ws0\<lparr>sequence := JInt 7\<rparr>"
  let ?sh = "shard0\<lparr>sh_sequence := JInt 7\<rparr>"
  have a: "sequence (snd (process_message (env_of dispatch6) ''{}'' ?ws)) = JInt 6"
    using process_message_sequence [where env = "env_of dispatch6" and msg = "''{}''"
        and kvs = "[(''t'', JStr ''MESSAGE_CREATE''), (''s'', JInt 6), (''op'', JInt 0),
                    (''d'', JDict [])]"
        and opv = "JInt 0" and data = "JDict []" and seq = "JInt 6" and ws = "?ws"]
    by (simp add: env_of_def dispatch6_def py_eq_int_def)
  have b: "sh_sequence (snd (Shard_process_payload (env_of dispatch6) True dispatch6 ?sh)) = JInt 6"
    using Shard_process_payload_sequence [where kvs = "[(''t'', JStr ''MESSAGE_CREATE''),
          (''s'', JInt 6), (''op'', JInt 0), (''d'', JDict [])]"
        and seq = "JInt 6" and env = "env_of dispatch6" and own_task = True and sh = "?sh"]
    by (simp add: dispatch6_def)
  have c: "sequence (snd (process_message (env_of invalid_session8) ''{}'' ?ws)) = JNull"
    using process_message_sequence [where env = "env_of invalid_session8" and msg = "''{}''"
        and kvs = "[(''t'', JNull), (''s'', JInt 8), (''op'', JInt 9), (''d'', JBool False)]"
        and opv = "JInt 9" and data = "JBool False" and seq = "JInt 8" and ws = "?ws"]
    by (simp add: env_of_def invalid_session8_def py_eq_int_def)
  have e: "sh_sequence (snd (Shard_process_payload env0 False reconnect8 ?sh)) = JNull"
    using Shard_process_payload_sequence [where kvs = "[(''t'', JNull), (''s'', JInt 8),
          (''op'', JInt 7), (''d'', JNull)]"
        and seq = "JInt 8" and env = env0 and own_task = False and sh = "?sh"]
    by (simp add: reconnect8_def disconnect_completes_def shard0_connection)
  have f: "sh_sequence (snd (Shard_process_payload env0 True reconnect8 ?sh)) = JInt 8"
    using Shard_process_payload_sequence [where kvs = "[(''t'', JNull), (''s'', JInt 8),
          (''op'', JInt 7), (''d'', JNull)]"
        and seq = "JInt 8" and env = env0 and own_task = True and sh = "?sh"]
    by (simp add: reconnect8_def disconnect_completes_def shard0_connection)
  have g: "fst (Shard_process_payload env0 True reconnect8 ?sh) = Some CancelledError"
    by (simp add: Shard_process_payload_def reconnect8_def py_is_int_def Let_def and_then_return
        Shard_disconnect_def shard0_connection)
  have h: "fst (process_message (env_of dispatch_no_d) ''{}'' ?ws) = Some KeyError \<and>
           sequence (snd (process_message (env_of dispatch_no_d) ''{}'' ?ws)) = JInt 7"
    using process_message_key_absent [where env = "env_of dispatch_no_d" and msg = "''{}''"
        and kvs = "[(''t'', JStr ''MESSAGE_CREATE''), (''s'', JInt 8), (''op'', JInt 0)]"
        and ws = "?ws"]
    by (simp add: env_of_def dispatch_no_d_def)
  show ?thesis
    using a b c e f g h by (simp add: received_message_def)
qed

section \<open>An acknowledgement that nobody waits for\<close>

lemma handle_opcode_ack_ignored:
  assumes "py_eq_int opv 11" and "heartbeat_ack_received ws = None"
  shows "handle_opcode env opv data ws = (None, ws)"
proof -
  have "\<not> py_eq_int opv 7" "\<not> py_eq_int opv 1" "\<not> py_eq_int opv 10" "\<not> py_eq_int opv 9"
    using py_eq_int_unique [OF assms(1)] by fastforce+
  then show ?thesis
    using assms by (simp add: handle_opcode_def)
qed

lemma process_message_ack_ignored:
  assumes "from_json env msg = Inr (JDict kvs)" and "map_of kvs ''op'' = Some (JInt 11)"
    and "heartbeat_ack_received ws = None"
  shows "fst (process_message env msg ws)
           = (if map_of kvs ''d'' = None \<or> map_of kvs ''s'' = None then Some KeyError else None) \<and>
         latency (snd (process_message env msg ws)) = latency ws \<and>
         loop_futures (snd (process_message env msg ws)) = loop_futures ws \<and>
         heartbeat_ack_received (snd (process_message env msg ws)) = None"
proof (cases "map_of kvs ''d'' = None \<or> map_of kvs ''s'' = None")
  case True
  then have "map_of kvs ''op'' = None \<or> map_of kvs ''d'' = None \<or> map_of kvs ''s'' = None"
    by blast
  from process_message_key_absent [OF assms(1) this, of ws] True assms(3)
  show ?thesis by simp
next
  case False
  then obtain data seq where k: "map_of kvs ''d'' = Some data" "map_of kvs ''s'' = Some seq"
    by auto
  let ?ws0 = "if enable_debug_events ws
              then ws\<lparr>dispatch_log := dispatch_log ws @ [(''socket_raw_receive'', JStr msg)]\<rparr>
              else ws"
  obtain ws2 where rm: "read_message (JDict kvs) ?ws0
       = (Inr (case map_of kvs ''t'' of None \<Rightarrow> JNull | Some v \<Rightarrow> v, JInt 11, data, seq), ws2)"
    and fr: "loop_futures ws2 = loop_futures ?ws0"
      "heartbeat_ack_received ws2 = heartbeat_ack_received ?ws0" "latency ws2 = latency ?ws0"
    by (rule read_message_keys [OF assms(2) k, of ?ws0])
  have p: "py_eq_int (JInt 11) 11" "\<not> py_eq_int (JInt 11) 0"
    by (simp_all add: py_eq_int_def)
  have "handle_opcode env (JInt 11) data ws2 = (None, ws2)"
    using handle_opcode_ack_ignored [OF p(1), of ws2 env data] fr(2) assms(3) by simp
  then show ?thesis
    unfolding process_message_read [OF assms(1)] rm
    using False fr assms(3) p(2) by simp
qed

lemma Shard_process_payload_ack_ignored:
  assumes "map_of kvs ''op'' = Some (JInt 11)" and "sh_heartbeat_ack_received sh = None"
  shows "Shard_process_payload env own_task (JDict kvs) sh
          = (None, case map_of kvs ''s'' of
                     None \<Rightarrow> sh
                   | Some seq \<Rightarrow> if seq \<noteq> JNull then sh\<lparr>sh_sequence := seq\<rparr> else sh)"
  using assms
  by (simp add: Shard_process_payload_def Let_def py_is_int_def and_then_return
      split: option.splits)

text \<open>
  C10, as the code has it. A \<^verbatim>\<open>HEARTBEAT_ACK\<close> arrives while \<^verbatim>\<open>_heartbeat_ack_received\<close>
  is \<^verbatim>\<open>None\<close>. In both classes no future changes and the stored latency is the one stored
  before. \<open>Shard_process_payload\<close> returns, and stores nothing but the sequence number of
  the payload if it has one. \<open>received_message\<close> returns when the payload has the keys
  \<^verbatim>\<open>d\<close> and \<^verbatim>\<open>s\<close>; when one of them is absent it raises \<^verbatim>\<open>KeyError\<close>, at the subscript
  that comes before the opcode is looked at.
\<close>

theorem C10_ack_without_future_ignored:
  assumes "from_json env msg = Inr (JDict kvs)" and "map_of kvs ''op'' = Some (JInt 11)"
    and "heartbeat_ack_received ws = None" and "sh_heartbeat_ack_received sh = None"
  shows "fst (received_message env (Str msg) ws)
           = (if map_of kvs ''d'' = None \<or> map_of kvs ''s'' = None then Some KeyError else None) \<and>
         latency (snd (received_message env (Str msg) ws)) = latency ws \<and>
         loop_futures (snd (received_message env (Str msg) ws)) = loop_futures ws \<and>
         heartbeat_ack_received (snd (received_message env (Str msg) ws)) = None \<and>
         Shard_process_payload env own_task (JDict kvs) sh
           = (None, case map_of kvs ''s'' of
                      None \<Rightarrow> sh
                    | Some seq \<Rightarrow> if seq \<noteq> JNull then sh\<lparr>sh_sequence := seq\<rparr> else sh)"
  using process_message_ack_ignored [OF assms(1,2,3)]
    Shard_process_payload_ack_ignored [OF assms(2,4), of env own_task]
  by (simp add: received_message_def)

lemma ws0_ack: "heartbeat_ack_received ws0 = None" "latency ws0 = 0" "loop_futures ws0 = []"
  by (simp_all add: ws0_def DiscordWebSocket_init_def)

lemma shard0_ack: "sh_heartbeat_ack_received shard0 = None"
  by (simp add: shard0_def Shard_connect_def Shard_init_def)

theorem C10_ack_without_future_ignored_witness:
  "from_json (env_of ack11) ''{}'' = Inr ack11 \<and>
   heartbeat_ack_received ws0 = None \<and> sh_heartbeat_ack_received shard0 = None \<and>
   fst (received_message (env_of ack11) (Str ''{}'') ws0) = None \<and>
   latency (snd (received_message (env_of ack11) (Str ''{}'') ws0)) = 0 \<and>
   loop_futures (snd (received_message (env_of ack11) (Str ''{}'') ws0)) = [] \<and>
   Shard_process_payload (env_of ack11) True ack11 shard0 = (None, shard0)"
  using C10_ack_without_future_ignored [where env = "env_of ack11" and msg = "''{}''"
      and kvs = "[(''t'', JNull), (''s'', JNull), (''op'', JInt 11), (''d'', JNull)]"
      and ws = ws0 and sh = shard0 and own_task = True]
  by (simp add: env_of_def ack11_def ws0_ack shard0_ack)

text \<open>
  C10 as stated fails for \<^verbatim>\<open>DiscordWebSocket\<close> at the acknowledgement \<^verbatim>\<open>{"op": 11}\<close>, the
  shape that \<^verbatim>\<open>HeartbeatAckEvent\<close> types: it is not ignored silently,
  \<open>received_message\<close> raises \<^verbatim>\<open>KeyError\<close>. \<open>Shard_process_payload\<close> returns on it.
\<close>

theorem C10_counterexample:
  "heartbeat_ack_received ws0 = None \<and>
   fst (received_message (env_of ack_typed) (Str ''{}'') ws0) = Some KeyError \<and>
   sh_heartbeat_ack_received shard0 = None \<and>
   Shard_process_payload (env_of ack_typed) True ack_typed shard0 = (None, shard0)"
  using process_message_ack_ignored [where env = "env_of ack_typed" and msg = "''{}''"
      and kvs = "[(''op'', JInt 11)]" and ws = ws0]
    Shard_process_payload_ack_ignored [where kvs = "[(''op'', JInt 11)]" and sh = shard0
      and env = "env_of ack_typed" and own_task = True]
  by (simp add: env_of_def ack_typed_def ws0_ack shard0_ack received_message_def)

section \<open>Binary frames\<close>

lemma ends_with_marker_append:
  assumes "ends_with_marker chunk"
  shows "ends_with_marker (buf @ chunk)"
proof -
  have l: "4 \<le> length chunk" and e: "drop (length chunk - 4) chunk = [0, 0, 255, 255]"
    using assms by (simp_all add: ends_with_marker_def)
  have "length (buf @ chunk) - 4 = length buf + (length chunk - 4)"
    using l by simp
  then have "drop (length (buf @ chunk) - 4) (buf @ chunk) = drop (length chunk - 4) chunk"
    by simp
  then show ?thesis
    using l e by (simp add: ends_with_marker_def)
qed

lemma received_bytes_incomplete:
  assumes "\<not> ends_with_marker (buffer ws @ chunk) \<or> \<not> ends_with_marker chunk"
  shows "received_bytes env chunk ws = (Inr None, ws\<lparr>buffer := buffer ws @ chunk\<rparr>)"
proof -
  have "\<not> ends_with_marker chunk"
    using assms ends_with_marker_append by blast
  then show ?thesis
    by (auto simp: received_bytes_def ends_with_marker_def Let_def)
qed

lemma received_bytes_complete:
  assumes "ends_with_marker chunk"
    and "decompress env (zlib ws) (buffer ws @ chunk) = (Inr raw, z)"
    and "decode_utf8 env raw = Inr str"
  shows "received_bytes env chunk ws = (Inr (Some str), ws\<lparr>zlib := z, buffer := []\<rparr>)"
  using assms by (simp add: received_bytes_def ends_with_marker_def Let_def)

lemma received_bytes_decoded:
  assumes "received_bytes env chunk ws = (Inr (Some str), ws')"
  shows "ends_with_marker (buffer ws @ chunk) \<and> buffer ws' = [] \<and>
         (\<exists>raw. decompress env (zlib ws) (buffer ws @ chunk) = (Inr raw, zlib ws') \<and>
                decode_utf8 env raw = Inr str)"
proof -
  have m: "ends_with_marker chunk"
    using assms by (auto simp: received_bytes_def ends_with_marker_def Let_def split: if_splits)
  then have "4 \<le> length chunk" "drop (length chunk - 4) chunk = [0, 0, 255, 255]"
    by (simp_all add: ends_with_marker_def)
  then show ?thesis
    using assms ends_with_marker_append [OF m, of "buffer ws"]
    by (auto simp: received_bytes_def Let_def split: prod.splits sum.splits)
qed

lemma Shard_process_raw_data_incomplete:
  assumes "\<not> ends_with_marker (sh_buffer sh @ chunk) \<or> \<not> ends_with_marker chunk"
  shows "Shard_process_raw_data env (Bytes chunk) sh
           = (Inl ValueError, sh\<lparr>sh_buffer := sh_buffer sh @ chunk\<rparr>)"
proof -
  have "\<not> ends_with_marker chunk"
    using assms ends_with_marker_append by blast
  then show ?thesis
    by (auto simp: Shard_process_raw_data_def ends_with_marker_def Let_def)
qed

lemma Shard_process_raw_data_complete:
  assumes "ends_with_marker chunk"
    and "decompress env (sh_zlib sh) (sh_buffer sh @ chunk) = (Inr raw, z)"
    and "decode_utf8 env raw = Inr str"
  shows "Shard_process_raw_data env (Bytes chunk) sh
           = (Inr str, sh\<lparr>sh_zlib := z, sh_buffer := []\<rparr>)"
  using assms by (simp add: Shard_process_raw_data_def ends_with_marker_def Let_def)

lemma Shard_process_raw_data_decoded:
  assumes "Shard_process_raw_data env (Bytes chunk) sh = (Inr str, sh')"
  shows "ends_with_marker (sh_buffer sh @ chunk) \<and> sh_buffer sh' = [] \<and>
         (\<exists>raw. decompress env (sh_zlib sh) (sh_buffer sh @ chunk) = (Inr raw, sh_zlib sh') \<and>
                decode_utf8 env raw = Inr str)"
proof -
  have m: "ends_with_marker chunk"
    using assms
    by (auto simp: Shard_process_raw_data_def ends_with_marker_def Let_def split: if_splits)
  then have "4 \<le> length chunk" "drop (length chunk - 4) chunk = [0, 0, 255, 255]"
    by (simp_all add: ends_with_marker_def)
  then show ?thesis
    using assms ends_with_marker_append [OF m, of "sh_buffer sh"]
    by (auto simp: Shard_process_raw_data_def Let_def split: prod.splits sum.splits)
qed

text \<open>
  C1, as the code has it. A chunk arrives and leaves the accumulated buffer without the
  marker at its end, or does not itself end with the marker (which is what the handlers
  test, and what the first implies): both handlers keep the bytes in the buffer and
  decode nothing, but only \<open>received_bytes\<close> of \<^verbatim>\<open>DiscordWebSocket\<close> returns;
  \<open>Shard_process_raw_data\<close> raises \<^verbatim>\<open>ValueError\<close>. In both handlers a decoded string is
  returned only when the buffer ends with the marker: it is the UTF-8 decoding of what
  the decompressor gives for the whole buffer, and the buffer is empty afterwards. And
  it is returned whenever the chunk ends with the marker and the decompressor and the
  decoder accept the buffer.
\<close>

theorem C1_binary_frames:
  "(\<not> ends_with_marker (buffer ws @ chunk) \<or> \<not> ends_with_marker chunk \<longrightarrow>
      received_bytes env chunk ws = (Inr None, ws\<lparr>buffer := buffer ws @ chunk\<rparr>)) \<and>
   (\<not> ends_with_marker (sh_buffer sh @ chunk) \<or> \<not> ends_with_marker chunk \<longrightarrow>
      Shard_process_raw_data env (Bytes chunk) sh
        = (Inl ValueError, sh\<lparr>sh_buffer := sh_buffer sh @ chunk\<rparr>)) \<and>
   (\<forall>str ws'. received_bytes env chunk ws = (Inr (Some str), ws') \<longrightarrow>
      ends_with_marker (buffer ws @ chunk) \<and> buffer ws' = [] \<and>
      (\<exists>raw. decompress env (zlib ws) (buffer ws @ chunk) = (Inr raw, zlib ws') \<and>
             decode_utf8 env raw = Inr str)) \<and>
   (\<forall>str sh'. Shard_process_raw_data env (Bytes chunk) sh = (Inr str, sh') \<longrightarrow>
      ends_with_marker (sh_buffer sh @ chunk) \<and> sh_buffer sh' = [] \<and>
      (\<exists>raw. decompress env (sh_zlib sh) (sh_buffer sh @ chunk) = (Inr raw, sh_zlib sh') \<and>
             decode_utf8 env raw = Inr str)) \<and>
   (\<forall>raw z str. ends_with_marker chunk \<and>
        decompress env (zlib ws) (buffer ws @ chunk) = (Inr raw, z) \<and>
        decode_utf8 env raw = Inr str \<longrightarrow>
      received_bytes env chunk ws = (Inr (Some str), ws\<lparr>zlib := z, buffer := []\<rparr>)) \<and>
   (\<forall>raw z str. ends_with_marker chunk \<and>
        decompress env (sh_zlib sh) (sh_buffer sh @ chunk) = (Inr raw, z) \<and>
        decode_utf8 env raw = Inr str \<longrightarrow>
      Shard_process_raw_data env (Bytes chunk) sh
        = (Inr str, sh\<lparr>sh_zlib := z, sh_buffer := []\<rparr>))"
proof (intro conjI impI allI)
  assume "\<not> ends_with_marker (buffer ws @ chunk) \<or> \<not> ends_with_marker chunk"
  then show "received_bytes env chunk ws = (Inr None, ws\<lparr>buffer := buffer ws @ chunk\<rparr>)"
    by (rule received_bytes_incomplete)
next
  assume "\<not> ends_with_marker (sh_buffer sh @ chunk) \<or> \<not> ends_with_marker chunk"
  then show "Shard_process_raw_data env (Bytes chunk) sh
        = (Inl ValueError, sh\<lparr>sh_buffer := sh_buffer sh @ chunk\<rparr>)"
    by (rule Shard_process_raw_data_incomplete)
next
  fix str ws'
  assume a: "received_bytes env chunk ws = (Inr (Some str), ws')"
  show "ends_with_marker (buffer ws @ chunk)" "buffer ws' = []"
    "\<exists>raw. decompress env (zlib ws) (buffer ws @ chunk) = (Inr raw, zlib ws') \<and>
           decode_utf8 env raw = Inr str"
    using received_bytes_decoded [OF a] by simp_all
next
  fix str sh'
  assume a: "Shard_process_raw_data env (Bytes chunk) sh = (Inr str, sh')"
  show "ends_with_marker (sh_buffer sh @ chunk)" "sh_buffer sh' = []"
    "\<exists>raw. decompress env (sh_zlib sh) (sh_buffer sh @ chunk) = (Inr raw, sh_zlib sh') \<and>
           decode_utf8 env raw = Inr str"
    using Shard_process_raw_data_decoded [OF a] by simp_all
next
  fix raw z str
  assume "ends_with_marker chunk \<and>
        decompress env (zlib ws) (buffer ws @ chunk) = (Inr raw, z) \<and>
        decode_utf8 env raw = Inr str"
  then show "received_bytes env chunk ws = (Inr (Some str), ws\<lparr>zlib := z, buffer := []\<rparr>)"
    using received_bytes_complete [of chunk env ws raw z str] by simp
next
  fix raw z str
  assume "ends_with_marker chunk \<and>
        decompress env (sh_zlib sh) (sh_buffer sh @ chunk) = (Inr raw, z) \<and>
        decode_utf8 env raw = Inr str"
  then show "Shard_process_raw_data env (Bytes chunk) sh
        = (Inr str, sh\<lparr>sh_zlib := z, sh_buffer := []\<rparr>)"
    using Shard_process_raw_data_complete [of chunk env sh raw z str] by simp
qed

lemma zlib_frames:
  "\<not> ends_with_marker zlib_frame1" "ends_with_marker zlib_frame2"
  "ends_with_marker (zlib_frame1 @ zlib_frame2)" "length zlib_frame1 = 8"
  by (simp_all add: ends_with_marker_def zlib_frame1_def zlib_frame2_def)

lemma env_zlib_simps:
  "decompress env_zlib z (zlib_frame1 @ zlib_frame2) = (Inr zlib_plain, z)"
  "decode_utf8 env_zlib = decode_utf8 env0"
  by (simp_all add: env_zlib_def)

lemma empty_buffers: "buffer ws0 = []" "sh_buffer shard0 = []"
  by (simp_all add: ws0_def DiscordWebSocket_init_def shard0_def Shard_connect_def Shard_init_def)

theorem C1_binary_frames_witness:
  "\<not> ends_with_marker (buffer ws0 @ zlib_frame1) \<and>
   \<not> ends_with_marker (sh_buffer shard0 @ zlib_frame1) \<and>
   received_bytes env_zlib zlib_frame1 ws0 = (Inr None, ws0\<lparr>buffer := zlib_frame1\<rparr>) \<and>
   Shard_process_raw_data env_zlib (Bytes zlib_frame1) shard0
     = (Inl ValueError, shard0\<lparr>sh_buffer := zlib_frame1\<rparr>) \<and>
   ends_with_marker zlib_frame2 \<and>
   decompress env_zlib () (zlib_frame1 @ zlib_frame2) = (Inr zlib_plain, ()) \<and>
   fst (received_bytes env_zlib zlib_frame2 (ws0\<lparr>buffer := zlib_frame1\<rparr>))
     = Inr (Some (map (\<lambda>b. char_of (unat b)) zlib_plain)) \<and>
   buffer (snd (received_bytes env_zlib zlib_frame2 (ws0\<lparr>buffer := zlib_frame1\<rparr>))) = [] \<and>
   fst (Shard_process_raw_data env_zlib (Bytes zlib_frame2) (shard0\<lparr>sh_buffer := zlib_frame1\<rparr>))
     = Inr (map (\<lambda>b. char_of (unat b)) zlib_plain) \<and>
   sh_buffer (snd (Shard_process_raw_data env_zlib (Bytes zlib_frame2)
                     (shard0\<lparr>sh_buffer := zlib_frame1\<rparr>))) = []"
proof -
  note first = C1_binary_frames [of ws0 zlib_frame1 env_zlib shard0]
  note second = C1_binary_frames [of "ws0\<lparr>buffer := zlib_frame1\<rparr>" zlib_frame2 env_zlib
      "shard0\<lparr>sh_buffer := zlib_frame1\<rparr>"]
  have n: "\<not> ends_with_marker (buffer ws0 @ zlib_frame1)"
    "\<not> ends_with_marker (sh_buffer shard0 @ zlib_frame1)"
    by (simp_all add: zlib_frames empty_buffers)
  have a: "received_bytes env_zlib zlib_frame1 ws0 = (Inr None, ws0\<lparr>buffer := zlib_frame1\<rparr>)"
    using first [THEN conjunct1, rule_format, OF disjI1 [OF n(1)]] by (simp add: empty_buffers)
  have b: "Shard_process_raw_data env_zlib (Bytes zlib_frame1) shard0
     = (Inl ValueError, shard0\<lparr>sh_buffer := zlib_frame1\<rparr>)"
    using first [THEN conjunct2, THEN conjunct1, rule_format, OF disjI1 [OF n(2)]]
    by (simp add: empty_buffers)
  have z: "decompress env_zlib () (zlib_frame1 @ zlib_frame2) = (Inr zlib_plain, ())"
    by (rule env_zlib_simps)
  have u: "decode_utf8 env_zlib zlib_plain = Inr (map (\<lambda>b. char_of (unat b)) zlib_plain)"
    by (simp add: env_zlib_def env0_def)
  have c: "received_bytes env_zlib zlib_frame2 (ws0\<lparr>buffer := zlib_frame1\<rparr>)
     = (Inr (Some (map (\<lambda>b. char_of (unat b)) zlib_plain)),
        ws0\<lparr>buffer := zlib_frame1, zlib := (), buffer := []\<rparr>)"
    using second [THEN conjunct2, THEN conjunct2, THEN conjunct2, THEN conjunct2,
        THEN conjunct1, rule_format, of zlib_plain "()" "map (\<lambda>b. char_of (unat b)) zlib_plain"]
      z u zlib_frames(2)
    by simp
  have e: "Shard_process_raw_data env_zlib (Bytes zlib_frame2) (shard0\<lparr>sh_buffer := zlib_frame1\<rparr>)
     = (Inr (map (\<lambda>b. char_of (unat b)) zlib_plain),
        shard0\<lparr>sh_buffer := zlib_frame1, sh_zlib := (), sh_buffer := []\<rparr>)"
    using second [THEN conjunct2, THEN conjunct2, THEN conjunct2, THEN conjunct2,
        THEN conjunct2, rule_format, of zlib_plain "()" "map (\<lambda>b. char_of (unat b)) zlib_plain"]
      z u zlib_frames(2)
    by simp
  show ?thesis
    using n a b z zlib_frames(2) by (simp add: c e)
qed

text \<open>
  C1 as stated fails for \<^verbatim>\<open>Shard\<close>. The first eight bytes of a compressed message arrive
  on a connection with an empty buffer, the rest of the message in a later frame. The
  chunk does not end with the marker; \<open>received_bytes\<close> of \<^verbatim>\<open>DiscordWebSocket\<close> returns
  with the bytes buffered, \<open>Shard_process_raw_data\<close> raises \<^verbatim>\<open>ValueError\<close>.
\<close>

theorem C1_counterexample:
  "length zlib_frame1 = 8 \<and> sh_buffer shard0 = [] \<and>
   \<not> ends_with_marker (sh_buffer shard0 @ zlib_frame1) \<and>
   ends_with_marker (zlib_frame1 @ zlib_frame2) \<and>
   Shard_process_raw_data env_zlib (Bytes zlib_frame1) shard0
     = (Inl ValueError, shard0\<lparr>sh_buffer := zlib_frame1\<rparr>) \<and>
   received_bytes env_zlib zlib_frame1 ws0 = (Inr None, ws0\<lparr>buffer := zlib_frame1\<rparr>)"
  using Shard_process_raw_data_incomplete [of shard0 zlib_frame1 env_zlib]
    received_bytes_incomplete [of ws0 zlib_frame1 env_zlib]
  by (simp add: zlib_frames empty_buffers)

section \<open>Voice latencies\<close>

lemma voice_round:
  assumes "send_fails (v_ws vws) = None"
  shows "latencies (snd (and_then (Voice_heartbeat_loop_step env vws)
                           (Voice_received_message env recv ack6)))
           = (if length (latencies vws) > 20 then [] else latencies vws) @ [0] \<and>
         send_fails (v_ws (snd (and_then (Voice_heartbeat_loop_step env vws)
                           (Voice_received_message env recv ack6)))) = None"
  using assms
  by (simp add: Voice_heartbeat_loop_step_def Voice_heartbeat_def Voice_send_as_json_def
      send_str_def and_then_def create_future_def Voice_received_message_def ack6_def
      py_eq_int_def set_result_def Let_def)

lemma heartbeat_rounds_send_fails:
  "send_fails (v_ws vws) = None \<Longrightarrow> send_fails (v_ws (heartbeat_rounds env n vws)) = None"
  by (induction n) (simp_all add: voice_round)

lemma heartbeat_rounds_length:
  assumes "send_fails (v_ws vws) = None" and "latencies vws = []"
  shows "n \<le> 21 \<Longrightarrow> length (latencies (heartbeat_rounds env n vws)) = n"
proof (induction n)
  case 0
  then show ?case using assms by simp
next
  case (Suc n)
  then have "length (latencies (heartbeat_rounds env n vws)) = n" "n \<le> 20" by simp_all
  then show ?case
    using voice_round [OF heartbeat_rounds_send_fails [OF assms(1)],
        where env1 = env and n1 = n and env = env and recv = "[]"]
    by simp
qed

lemma voice0_simps: "send_fails (v_ws voice0) = None" "latencies voice0 = []"
  by (simp_all add: voice0_def DiscordVoiceWebSocket_init_def new_socket_def)

text \<open>
  C8 after 21 and after 22 acknowledged heartbeats on a new voice connection. The list
  is cleared only when it already holds more than 20 samples: after 21 exchanges it
  holds 21 samples, and \<open>average_latency\<close> is their mean over 21; the exchange after that
  clears the list and leaves one sample, not the last 20.
\<close>

theorem C8_latencies_reach_21:
  "length (latencies (heartbeat_rounds env0 21 voice0)) = 21 \<and>
   average_latency (heartbeat_rounds env0 21 voice0)
     = Some (sum_list (latencies (heartbeat_rounds env0 21 voice0)) / 21) \<and>
   length (latencies (heartbeat_rounds env0 22 voice0)) = 1"
proof -
  have a: "length (latencies (heartbeat_rounds env0 21 voice0)) = 21"
    by (rule heartbeat_rounds_length [OF voice0_simps]) simp
  have b: "heartbeat_rounds env0 22 voice0 =
     snd (and_then (Voice_heartbeat_loop_step env0 (heartbeat_rounds env0 21 voice0))
            (Voice_received_message env0 [] ack6))"
    by (simp add: eval_nat_numeral)
  have c: "length (latencies (heartbeat_rounds env0 22 voice0)) = 1"
    unfolding b
    using voice_round [OF heartbeat_rounds_send_fails [OF voice0_simps(1)],
        where env1 = env0 and n1 = 21 and env = env0 and recv = "[]"] a
    by simp
  have d: "latencies (heartbeat_rounds env0 21 voice0) \<noteq> []"
    using a by auto
  show ?thesis
    using a c d by (simp add: average_latency_def)
qed

section \<open>Voice address discovery\<close>

lemma pack_H_1: "pack_H 1 = Inr [0, 1]" and pack_H_70: "pack_H 70 = Inr [0, 70]"
  by (simp_all add: pack_H_def)

lemma discovery_packet_bytes:
  assumes "0 \<le> n" and "n < 2 ^ 32"
  shows "discovery_packet (JInt n)
           = Inr ([0, 1, 0, 70, word_of_int (n div 2 ^ 24), word_of_int (n div 2 ^ 16),
                   word_of_int (n div 2 ^ 8), word_of_int n] @ replicate 66 0)"
  using assms
  by (simp add: discovery_packet_def pack_H_1 pack_H_70 pack_I_def pack_into_def struct_int_def)

lemma big_endian_value:
  fixes n :: int
  assumes "0 \<le> n" and "n < 2 ^ 32"
  shows "uint (word_of_int (n div 2 ^ 24) :: byte) * 2 ^ 24
         + uint (word_of_int (n div 2 ^ 16) :: byte) * 2 ^ 16
         + uint (word_of_int (n div 2 ^ 8) :: byte) * 2 ^ 8
         + uint (word_of_int n :: byte) = n"
proof -
  have a: "n mod 16777216 = 65536 * (n div 65536 mod 256) + n mod 65536"
    using zmod_zmult2_eq [of 256 n 65536] by simp
  have b: "n mod 65536 = 256 * (n div 256 mod 256) + n mod 256"
    using zmod_zmult2_eq [of 256 n 256] by simp
  have c: "n = 16777216 * (n div 16777216) + n mod 16777216"
    by simp
  have "n div 16777216 < 256" "0 \<le> n div 16777216"
    using assms by simp_all
  then have e: "n div 16777216 mod 256 = n div 16777216"
    by simp
  have u: "uint (word_of_int k :: byte) = k mod 256" for k
    by (simp add: uint_word_of_int take_bit_eq_mod)
  have p: "(2 :: int) ^ 24 = 16777216" "(2 :: int) ^ 16 = 65536" "(2 :: int) ^ 8 = 256"
    by simp_all
  show ?thesis
    unfolding u p using a b c e by linarith
qed

lemma send_discovery_sends:
  assumes "0 \<le> n" and "n < 2 ^ 32"
    and "map_of kvs ''ssrc'' = Some (JInt n)" and "map_of kvs ''port'' = Some p"
    and "map_of kvs ''ip'' = Some a"
  shows "send_discovery (JDict kvs) state
           = (None, state\<lparr>ssrc := JInt n, voice_port := p, endpoint_ip := a,
                udp_sent := udp_sent state @
                  [([0, 1, 0, 70, word_of_int (n div 2 ^ 24), word_of_int (n div 2 ^ 16),
                     word_of_int (n div 2 ^ 8), word_of_int n] @ replicate 66 0, a, p)]\<rparr>)"
  using assms(3-5) discovery_packet_bytes [OF assms(1,2)]
  by (simp add: send_discovery_def Let_def)

lemma read_discovery_reads:
  assumes "recv = pre @ txt @ 0 # rest" and "length pre = 8"
    and "list_all (\<lambda>b. b \<noteq> 0 \<and> b < 128) txt" and "length recv = 74"
  shows "read_discovery recv state
           = (None, state\<lparr>ip := map (\<lambda>b. char_of (unat b)) txt,
                           port := uint (recv ! 72) * 256 + uint (recv ! 73)\<rparr>)"
proof -
  have d: "drop 8 recv = txt @ 0 # rest"
    using assms(1,2) by simp
  have nz: "\<forall>b \<in> set txt. b \<noteq> 0" and asc: "list_all (\<lambda>b. b < 128) txt"
    using assms(3) by (simp_all add: list_all_iff)
  have tw: "takeWhile (\<lambda>b. b \<noteq> 0) (txt @ 0 # rest) = txt"
    using nz by (simp add: takeWhile_append2)
  have i: "bytes_index 0 8 recv = Inr (8 + length txt)"
    by (simp add: bytes_index_def d tw)
  have a: "decode_ascii (take (length txt) (drop 8 recv))
             = Inr (map (\<lambda>b. char_of (unat b)) txt)"
    using asc by (simp add: d decode_ascii_def)
  have u: "unpack_from_H recv (int (length recv) - 2)
             = Inr (uint (recv ! 72) * 256 + uint (recv ! 73))"
    using assms(4) by (simp add: unpack_from_H_def Let_def)
  show ?thesis
    unfolding read_discovery_def by (simp add: i a u Let_def)
qed

lemma initial_connection_connection:
  "connection (snd (initial_connection env recv data vws))
     = snd (and_then (send_discovery data (connection vws)) (read_discovery recv))"
  by (cases "and_then (send_discovery data (connection vws)) (read_discovery recv)")
     (simp add: initial_connection_def select_protocol_def Voice_send_as_json_def Let_def
        split: option.splits sum.splits prod.splits)

text \<open>
  C7. For a \<^verbatim>\<open>READY\<close> payload whose \<^verbatim>\<open>ssrc\<close> is an unsigned 32-bit integer,
  \<open>initial_connection\<close> sends to the address of the payload a packet of 74 bytes: the
  bytes 0, 1 (the 16-bit value 1), the bytes 0, 70 (the 16-bit value 70), the four bytes
  of the ssrc with the most significant first, and 66 zero bytes. For a reply of 74 bytes
  that holds, from offset 8 on, ASCII text without a null byte and then a null byte, it
  stores that text as the external address and the big-endian 16-bit value of the
  last two bytes as the external port. The witness is the reply of the claim:
  \<^verbatim>\<open>203.0.113.5\<close> and the bytes \<^verbatim>\<open>1F 90\<close> give the port 8080.
\<close>

theorem C7_ip_discovery:
  assumes "0 \<le> n" and "n < 2 ^ 32"
    and "map_of kvs ''ssrc'' = Some (JInt n)" and "map_of kvs ''port'' = Some p"
    and "map_of kvs ''ip'' = Some a"
    and "recv = pre @ txt @ 0 # rest" and "length pre = 8"
    and "list_all (\<lambda>b. b \<noteq> 0 \<and> b < 128) txt" and "length recv = 74"
  shows "udp_sent (connection (snd (initial_connection env recv (JDict kvs) vws)))
           = udp_sent (connection vws) @
               [([0, 1, 0, 70, word_of_int (n div 2 ^ 24), word_of_int (n div 2 ^ 16),
                  word_of_int (n div 2 ^ 8), word_of_int n] @ replicate 66 0, a, p)] \<and>
         uint (word_of_int (n div 2 ^ 24) :: byte) * 2 ^ 24
           + uint (word_of_int (n div 2 ^ 16) :: byte) * 2 ^ 16
           + uint (word_of_int (n div 2 ^ 8) :: byte) * 2 ^ 8
           + uint (word_of_int n :: byte) = n \<and>
         ip (connection (snd (initial_connection env recv (JDict kvs) vws)))
           = map (\<lambda>b. char_of (unat b)) txt \<and>
         port (connection (snd (initial_connection env recv (JDict kvs) vws)))
           = uint (recv ! 72) * 256 + uint (recv ! 73)"
proof -
  have "connection (snd (initial_connection env recv (JDict kvs) vws))
     = (connection vws)\<lparr>ssrc := JInt n, voice_port := p, endpoint_ip := a,
                udp_sent := udp_sent (connection vws) @
                  [([0, 1, 0, 70, word_of_int (n div 2 ^ 24), word_of_int (n div 2 ^ 16),
                     word_of_int (n div 2 ^ 8), word_of_int n] @ replicate 66 0, a, p)],
                ip := map (\<lambda>b. char_of (unat b)) txt,
                port := uint (recv ! 72) * 256 + uint (recv ! 73)\<rparr>"
    by (simp add: initial_connection_connection and_then_def
        send_discovery_sends [OF assms(1-5)] read_discovery_reads [OF assms(6-9)])
  then show ?thesis
    using big_endian_value [OF assms(1,2)] by simp
qed

theorem C7_ip_discovery_witness:
  "(0 :: int) \<le> 1 \<and> (1 :: int) < 2 ^ 32 \<and> length discovery_reply = 74 \<and>
   udp_sent (connection (snd (initial_connection env0 discovery_reply (JDict voice_ready) voice0)))
     = [([0, 1, 0, 70, 0, 0, 0, 1] @ replicate 66 0, JStr ''198.51.100.7'', JInt 50000)] \<and>
   ip (connection (snd (initial_connection env0 discovery_reply (JDict voice_ready) voice0)))
     = ''203.0.113.5'' \<and>
   port (connection (snd (initial_connection env0 discovery_reply (JDict voice_ready) voice0)))
     = 8080"
proof -
  have k: "map_of voice_ready ''ssrc'' = Some (JInt 1)"
    "map_of voice_ready ''port'' = Some (JInt 50000)"
    "map_of voice_ready ''ip'' = Some (JStr ''198.51.100.7'')"
    by (simp_all add: voice_ready_def)
  have r: "discovery_reply = replicate 8 0 @ [50, 48, 51, 46, 48, 46, 49, 49, 51, 46, 53]
             @ 0 # (replicate 52 0 @ [31, 144])"
    by (simp add: discovery_reply_def)
  have l: "length (replicate 8 (0 :: byte)) = 8" "length discovery_reply = 74"
    by (simp_all add: discovery_reply_def)
  have t: "list_all (\<lambda>b. b \<noteq> 0 \<and> b < 128) [50, 48, 51, 46, 48, 46, 49, 49, 51, 46, 53 :: byte]"
    by simp
  have n: "(0 :: int) \<le> 1" "(1 :: int) < 2 ^ 32"
    by simp_all
  have e: "discovery_reply ! 72 = 31" "discovery_reply ! 73 = 144"
    by (simp_all add: discovery_reply_def nth_append)
  have u: "udp_sent (connection voice0) = []"
    by (simp add: voice0_def DiscordVoiceWebSocket_init_def client0_def)
  show ?thesis
    using C7_ip_discovery [OF n k r l(1) t l(2), of env0 voice0] l(2)
    by (simp add: e u char_of_def bit_iff_odd_drop_bit drop_bit_eq_div)
qed

section \<open>Event waiters\<close>




























text \<open>
  \<open>wait_for\<close> gives every waiter a future of its own: on a connection whose listeners
  have distinct futures in the loop, they still have after \<open>wait_for\<close>.
\<close>

lemma wait_for_distinct:
  assumes "distinct (map future (dispatch_listeners ws))"
    and "\<forall>e \<in> set (dispatch_listeners ws). future e < length (loop_futures ws)"
  shows "distinct (map future (dispatch_listeners (snd (wait_for ev pr res ws)))) \<and>
         (\<forall>e \<in> set (dispatch_listeners (snd (wait_for ev pr res ws))).
            future e < length (loop_futures (snd (wait_for ev pr res ws))))"
  using assms by (auto simp: wait_for_def create_future_def)





















end
